theory Spec2Isabelle
  imports Complex_Main "HOL-Library.AList" "HOL-Library.Sublist"
begin

section \<open>Platform primitives\<close>

text \<open>
  Exceptions are values: a computation that may throw returns \<open>exn + 'a\<close>, with
  \<open>Inl\<close> for the exception. A \<^verbatim>\<open>try { ... } catch { ... }\<close> block is
  \<open>try_catch\<close>.
\<close>

datatype exn = NetworkError | SyntaxError | SecurityError | QuotaExceededError | TypeError

definition try_catch :: "exn + 'a \<Rightarrow> (exn \<Rightarrow> exn + 'a) \<Rightarrow> exn + 'a" where
  "try_catch body handler = (case body of Inl e \<Rightarrow> handler e | Inr v \<Rightarrow> Inr v)"

text \<open>\<^verbatim>\<open>String(n)\<close> for an integer \<open>n\<close>: its decimal numeral.\<close>

fun digits :: "nat \<Rightarrow> string" where
  "digits n =
     (if n < 10 then [''0123456789'' ! n]
      else digits (n div 10) @ [''0123456789'' ! (n mod 10)])"

declare digits.simps [simp del]

definition String_num :: "int \<Rightarrow> string" where
  "String_num i = (if i < 0 then CHR ''-'' # digits (nat (- i)) else digits (nat i))"

text \<open>
  Strings are lists of 8-bit characters, read as the code units U+0000 to U+00FF
  of a JavaScript string. On these, \<^verbatim>\<open>toLowerCase\<close> lowers the letters A to Z,
  U+00C0 to U+00D6 and U+00D8 to U+00DE (each by 32) and nothing else, and
  \<^verbatim>\<open>trim\<close> strips the white space and line terminators of ECMAScript that
  lie in the range: tab, line feed, vertical tab, form feed, carriage return, space
  and the no-break space U+00A0.
\<close>

definition upperCaseLetters :: string where
  "upperCaseLetters =
     ''ABCDEFGHIJKLMNOPQRSTUVWXYZ'' @
     [CHR 0xC0, CHR 0xC1, CHR 0xC2, CHR 0xC3, CHR 0xC4, CHR 0xC5, CHR 0xC6, CHR 0xC7,
      CHR 0xC8, CHR 0xC9, CHR 0xCA, CHR 0xCB, CHR 0xCC, CHR 0xCD, CHR 0xCE, CHR 0xCF,
      CHR 0xD0, CHR 0xD1, CHR 0xD2, CHR 0xD3, CHR 0xD4, CHR 0xD5, CHR 0xD6,
      CHR 0xD8, CHR 0xD9, CHR 0xDA, CHR 0xDB, CHR 0xDC, CHR 0xDD, CHR 0xDE]"

definition lowerCaseLetters :: string where
  "lowerCaseLetters =
     ''abcdefghijklmnopqrstuvwxyz'' @
     [CHR 0xE0, CHR 0xE1, CHR 0xE2, CHR 0xE3, CHR 0xE4, CHR 0xE5, CHR 0xE6, CHR 0xE7,
      CHR 0xE8, CHR 0xE9, CHR 0xEA, CHR 0xEB, CHR 0xEC, CHR 0xED, CHR 0xEE, CHR 0xEF,
      CHR 0xF0, CHR 0xF1, CHR 0xF2, CHR 0xF3, CHR 0xF4, CHR 0xF5, CHR 0xF6,
      CHR 0xF8, CHR 0xF9, CHR 0xFA, CHR 0xFB, CHR 0xFC, CHR 0xFD, CHR 0xFE]"

definition toLowerCase_char :: "char \<Rightarrow> char" where
  "toLowerCase_char c =
     (case map_of (zip upperCaseLetters lowerCaseLetters) c of
        Some l \<Rightarrow> l
      | None \<Rightarrow> c)"

definition toLowerCase :: "string \<Rightarrow> string" where
  "toLowerCase s = map toLowerCase_char s"

definition isWhiteSpace :: "char \<Rightarrow> bool" where
  "isWhiteSpace c =
     (c = CHR 0x09 \<or> c = CHR 0x0A \<or> c = CHR 0x0B \<or> c = CHR 0x0C \<or> c = CHR 0x0D \<or>
      c = CHR 0x20 \<or> c = CHR 0xA0)"

definition trim :: "string \<Rightarrow> string" where
  "trim s = rev (dropWhile isWhiteSpace (rev (dropWhile isWhiteSpace s)))"

text \<open>\<^verbatim>\<open>s.includes(q)\<close>: \<open>q\<close> occurs in \<open>s\<close> at some offset.\<close>

fun includes_str :: "string \<Rightarrow> string \<Rightarrow> bool" where
  "includes_str [] q = (q = [])"
| "includes_str (c # cs) q = (prefix q (c # cs) \<or> includes_str cs q)"

text \<open>
  \<^verbatim>\<open>Math.ceil(Math.sqrt(n))\<close> on a node count, with JavaScript numbers read as
  reals; \<open>ceil_sqrt\<close> computes the same number by search.
\<close>

definition Math_ceil_sqrt :: "nat \<Rightarrow> nat" where
  "Math_ceil_sqrt n = nat \<lceil>sqrt (real n)\<rceil>"

function ceil_sqrt_from :: "nat \<Rightarrow> nat \<Rightarrow> nat" where
  "ceil_sqrt_from n k = (if n \<le> k * k then k else ceil_sqrt_from n (Suc k))"
  by pat_completeness auto
termination
proof (relation "measure (\<lambda>(n, k). n - k)")
  show "wf (measure (\<lambda>(n, k). n - k))" by simp
next
  fix n k :: nat
  assume "\<not> n \<le> k * k"
  then have "k * k < n" by simp
  moreover have "k \<le> k * k" by (cases k) simp_all
  ultimately have "k < n" by linarith
  then show "((n, Suc k), (n, k)) \<in> measure (\<lambda>(n, k). n - k)" by simp
qed

declare ceil_sqrt_from.simps [simp del]

definition ceil_sqrt :: "nat \<Rightarrow> nat" where
  "ceil_sqrt n = ceil_sqrt_from n 0"

text \<open>
  JavaScript values as far as JSON text and the canvas positions need them. A
  number is a finite number, read as a real, or one of the three values that are
  not. An object is a map from property names to values.
\<close>

datatype jsnum = Fin real | NaN | PosInfinity | NegInfinity

datatype jsval =
    JUndefined
  | JNull
  | JBool bool
  | JNum jsnum
  | JStr string
  | JArr "jsval list"
  | JObj "string \<Rightarrow> jsval option"

text \<open>The object literal \<^verbatim>\<open>{ x: ..., y: ... }\<close>.\<close>

definition xy :: "jsval \<Rightarrow> jsval \<Rightarrow> jsval" where
  "xy vx vy = JObj [''x'' \<mapsto> vx, ''y'' \<mapsto> vy]"

text \<open>
  The property access \<^verbatim>\<open>v[k]\<close>, for a key \<open>k\<close> that names no built-in
  property (the code reads decimal numerals, \<^verbatim>\<open>x\<close> and \<^verbatim>\<open>y\<close>): it
  throws on \<^verbatim>\<open>null\<close> and \<^verbatim>\<open>undefined\<close>, finds nothing on a boolean or
  a number, reads the element of an array or the character of a string when the key
  is the numeral of an index, and reads the property of an object.
\<close>

definition indexKeys :: "nat \<Rightarrow> string list" where
  "indexKeys n = map (\<lambda>i. String_num (int i)) [0..<n]"

fun getProperty :: "jsval \<Rightarrow> string \<Rightarrow> exn + jsval" where
  "getProperty JUndefined k = Inl TypeError"
| "getProperty JNull k = Inl TypeError"
| "getProperty (JBool b) k = Inr JUndefined"
| "getProperty (JNum n) k = Inr JUndefined"
| "getProperty (JStr s) k =
     Inr (case map_of (zip (indexKeys (length s)) s) k of
            Some c \<Rightarrow> JStr [c]
          | None \<Rightarrow> JUndefined)"
| "getProperty (JArr vs) k =
     Inr (case map_of (zip (indexKeys (length vs)) vs) k of
            Some v \<Rightarrow> v
          | None \<Rightarrow> JUndefined)"
| "getProperty (JObj m) k = Inr (case m k of Some v \<Rightarrow> v | None \<Rightarrow> JUndefined)"

text \<open>\<^verbatim>\<open>v ?? d\<close> takes \<open>d\<close> when \<open>v\<close> is \<^verbatim>\<open>null\<close> or \<^verbatim>\<open>undefined\<close>.\<close>

definition nullish :: "jsval \<Rightarrow> bool" where
  "nullish v = (v = JUndefined \<or> v = JNull)"

text \<open>
  The browser's \<^verbatim>\<open>localStorage\<close>: string keys to string values. Access
  throws when storage is disabled for the page, and a write throws when it would
  take the stored keys and values over the quota; the code guards both with
  \<^verbatim>\<open>try/catch\<close>.
\<close>

record Storage =
  items :: "(string \<times> string) list"
  accessible :: bool
  quota :: nat

definition used :: "(string \<times> string) list \<Rightarrow> nat" where
  "used al = sum_list (map (\<lambda>(k, v). length k + length v) al)"

definition getItem :: "Storage \<Rightarrow> string \<Rightarrow> exn + string option" where
  "getItem st k = (if \<not> accessible st then Inl SecurityError else Inr (map_of (items st) k))"

definition setItem :: "Storage \<Rightarrow> string \<Rightarrow> string \<Rightarrow> exn + Storage" where
  "setItem st k v =
     (if \<not> accessible st then Inl SecurityError
      else if quota st < used (AList.update k v (items st)) then Inl QuotaExceededError
      else Inr (st\<lparr>items := AList.update k v (items st)\<rparr>))"

section \<open>Backend entities\<close>

text \<open>
  The entity types of \<^verbatim>\<open>App.tsx\<close>. Identifiers are JavaScript numbers that
  hold database keys; they are modelled as integers. Field names carry a prefix
  because record fields are global constants.
\<close>

datatype EdgeTypeT = positive | neutral | negative

record User =
  u_id :: int
  u_name :: string
  u_email :: string

record Graph =
  g_id :: int
  g_title :: string
  g_user_id :: int

record NodeT =
  n_id :: int
  n_name :: string
  n_graph_id :: int

record EdgeT =
  e_id :: int
  e_from_node_id :: int
  e_to_node_id :: int
  e_edge_type :: EdgeTypeT
  e_label :: "string option"

record TechniqueDraft =
  videoUrl :: string
  steps :: string
  updatedAt :: int

text \<open>The body of \<^verbatim>\<open>GET /nodes/:id/technique\<close>; a field may be null or absent.\<close>

record TechniqueData =
  video_url :: "string option"
  steps_text :: "string option"

section \<open>Edge classification\<close>

fun edgeStroke :: "EdgeTypeT \<Rightarrow> string" where
  "edgeStroke t =
     (if t = positive then ''#16a34a''
      else if t = neutral then ''#1f307cff''
      else ''#dc2626'')"

fun nextEdgeType :: "EdgeTypeT \<Rightarrow> EdgeTypeT" where
  "nextEdgeType t =
     (if t = positive then neutral
      else if t = neutral then negative
      else positive)"

section \<open>HTTP\<close>

text \<open>
  A \<^verbatim>\<open>fetch\<close> either rejects or resolves to a response. Reading the body
  of a response can fail: \<^verbatim>\<open>res.text()\<close> rejects when the body cannot be
  read, \<^verbatim>\<open>res.json()\<close> also when it is not the expected JSON. The requests
  themselves are not represented: the backend's answers are inputs of the model.
\<close>

record 'a Response =
  res_status :: nat
  res_text :: "exn + string"
  res_json :: "exn + 'a"

type_synonym 'a fetched = "exn + 'a Response"

definition ok :: "'a Response \<Rightarrow> bool" where
  "ok r = (200 \<le> res_status r \<and> res_status r \<le> 299)"

text \<open>\<^verbatim>\<open>apiFetch(...).then((r) => r.json())\<close>: the status is not looked at.\<close>

definition fetch_json :: "'a fetched \<Rightarrow> exn + 'a" where
  "fetch_json f = (case f of Inl e \<Rightarrow> Inl e | Inr r \<Rightarrow> res_json r)"

text \<open>\<^verbatim>\<open>Promise.all\<close>: rejects as soon as one promise rejects.\<close>

fun Promise_all :: "(exn + 'a) list \<Rightarrow> exn + 'a list" where
  "Promise_all [] = Inr []"
| "Promise_all (r # rs) =
     (case r of
        Inl e \<Rightarrow> Inl e
      | Inr v \<Rightarrow> (case Promise_all rs of Inl e \<Rightarrow> Inl e | Inr vs \<Rightarrow> Inr (v # vs)))"

section \<open>Canvas view model\<close>

text \<open>
  The records of the canvas library. The position of a node is whatever value the
  code puts there: \<^verbatim>\<open>{ x, y }\<close> where the code builds it, and the stored
  value where it comes from \<^verbatim>\<open>localStorage\<close>.
\<close>

record RFNode =
  rf_id :: string
  rf_type :: string
  rf_label :: string
  rf_dimmed :: "bool option"
  rf_highlighted :: "bool option"
  rf_position :: jsval
  rf_selected :: "bool option"

record RFEdge =
  rfe_id :: string
  rfe_source :: string
  rfe_target :: string
  rfe_sourceHandle :: "string option"
  rfe_targetHandle :: "string option"
  rfe_type :: string
  rfe_label :: "string option"
  rfe_stroke :: string
  rfe_strokeWidth :: real
  rfe_opacity :: "real option"

text \<open>A node change of the canvas library; the code only passes it on.\<close>

typedecl NodeChange

record Connection =
  c_source :: "string option"
  c_target :: "string option"
  c_sourceHandle :: "string option"
  c_targetHandle :: "string option"

text \<open>
  What the code takes from the platform and from the canvas library:
  \<^verbatim>\<open>JSON.parse\<close> (\<open>Inl\<close> when it throws) and \<^verbatim>\<open>JSON.stringify\<close>,
  the successive values of \<^verbatim>\<open>Math.random()\<close>, \<^verbatim>\<open>Date.now()\<close>, the
  library's \<^verbatim>\<open>addEdge\<close> (applied to the connection with the fixed type and
  style the code adds) and the library's reducer for a batch of node changes.
\<close>

record Platform =
  JSON_parse :: "string \<Rightarrow> exn + jsval"
  JSON_stringify :: "jsval \<Rightarrow> string"
  Math_random :: "nat \<Rightarrow> real"
  Date_now :: int
  addEdge :: "Connection \<Rightarrow> RFEdge list \<Rightarrow> RFEdge list"
  applyNodeChanges :: "NodeChange list \<Rightarrow> RFNode list \<Rightarrow> RFNode list"

section \<open>Position persistence\<close>

text \<open>
  \<^verbatim>\<open>loadPositions\<close> returns what \<^verbatim>\<open>JSON.parse\<close> gives for the stored
  text, whatever its shape; \<^verbatim>\<open>savePositions\<close> swallows a refused write.
\<close>

definition posKey :: "int \<Rightarrow> string" where
  "posKey graphId = ''matlogic:positions:'' @ String_num graphId"

definition loadPositions :: "Platform \<Rightarrow> Storage \<Rightarrow> int \<Rightarrow> exn + jsval" where
  "loadPositions P st graphId =
     try_catch
       (case getItem st (posKey graphId) of
          Inl e \<Rightarrow> Inl e
        | Inr raw \<Rightarrow>
            (case raw of
               None \<Rightarrow> Inr (JObj Map.empty)
             | Some r \<Rightarrow> if r = [] then Inr (JObj Map.empty) else JSON_parse P r))
       (\<lambda>_. Inr (JObj Map.empty))"

definition savePositions :: "Platform \<Rightarrow> int \<Rightarrow> jsval \<Rightarrow> Storage \<Rightarrow> exn + Storage" where
  "savePositions P graphId m st =
     try_catch (setItem st (posKey graphId) (JSON_stringify P m)) (\<lambda>_. Inr st)"

section \<open>Technique notes\<close>

definition or_empty :: "string option \<Rightarrow> string" where
  "or_empty v = (case v of None \<Rightarrow> [] | Some s \<Rightarrow> s)"

definition loadTechniqueDraft :: "Platform \<Rightarrow> TechniqueData fetched \<Rightarrow> exn + TechniqueDraft" where
  "loadTechniqueDraft P res =
     try_catch
       (case res of
          Inl e \<Rightarrow> Inl e
        | Inr r \<Rightarrow>
            if \<not> ok r then Inr \<lparr>videoUrl = [], steps = [], updatedAt = Date_now P\<rparr>
            else (case res_json r of
                    Inl e \<Rightarrow> Inl e
                  | Inr d \<Rightarrow>
                      Inr \<lparr>videoUrl = or_empty (video_url d), steps = or_empty (steps_text d),
                           updatedAt = Date_now P\<rparr>))
       (\<lambda>_. Inr \<lparr>videoUrl = [], steps = [], updatedAt = Date_now P\<rparr>)"

section \<open>Application state\<close>

text \<open>
  The React state of \<^verbatim>\<open>App\<close> that the operations below read or write,
  with the browser's storage, the pending debounce timer of position saves (its
  delay), the pending fit-view timer, whether the canvas instance is mounted, and
  the number of \<^verbatim>\<open>Math.random()\<close> values drawn so far.
\<close>

record AppState =
  users :: "User list"
  graphs :: "Graph list"
  nodes :: "NodeT list"
  edges :: "EdgeT list"
  selectedUserId :: "int option"
  selectedGraphId :: "int option"
  error :: "string option"
  authToken :: "string option"
  selectedNodeIds :: "int list"
  selectedEdgeIds :: "int list"
  rfNodes :: "RFNode list"
  rfEdges :: "RFEdge list"
  searchQuery :: string
  localStorage :: Storage
  saveTimer :: "nat option"
  fitViewTimer :: "nat option"
  rfInstance :: bool
  randomDraws :: nat

section \<open>Derived values\<close>

text \<open>
  The memoised values. \<^verbatim>\<open>if (!selectedGraphId) return []\<close> returns the empty
  list for \<^verbatim>\<open>null\<close> and for the id \<^verbatim>\<open>0\<close>.
\<close>

definition graphNodes :: "AppState \<Rightarrow> NodeT list" where
  "graphNodes s =
     (case selectedGraphId s of
        None \<Rightarrow> []
      | Some g \<Rightarrow> if g = 0 then [] else filter (\<lambda>n. n_graph_id n = g) (nodes s))"

definition graphEdges :: "AppState \<Rightarrow> EdgeT list" where
  "graphEdges s =
     (case selectedGraphId s of
        None \<Rightarrow> []
      | Some g \<Rightarrow>
          if g = 0 then []
          else (let nodeIds = set (map n_id (graphNodes s))
                in filter (\<lambda>e. e_from_node_id e \<in> nodeIds \<and> e_to_node_id e \<in> nodeIds) (edges s)))"


definition matchingNodeIds :: "AppState \<Rightarrow> int list" where
  "matchingNodeIds s =
     (let q = toLowerCase (trim (searchQuery s))
      in if q = [] then []
         else map n_id (filter (\<lambda>n. includes_str (toLowerCase (n_name n)) q) (graphNodes s)))"

section \<open>Rebuilding the view model\<close>

text \<open>
  The effect that rebuilds the canvas nodes and edges; React runs it after a commit
  that changed the selection, the projected nodes or edges, or the matches. A node
  whose saved position is \<^verbatim>\<open>null\<close> or \<^verbatim>\<open>undefined\<close> draws two random
  numbers; the counter of draws is threaded through. The effect throws when the
  loaded positions cannot be indexed.
\<close>

fun projectNodes ::
  "Platform \<Rightarrow> jsval \<Rightarrow> int list \<Rightarrow> nat \<Rightarrow> NodeT list \<Rightarrow> exn + RFNode list \<times> nat" where
  "projectNodes P pos m k [] = Inr ([], k)"
| "projectNodes P pos m k (n # ns) =
     (case getProperty pos (String_num (n_id n)) of
        Inl e \<Rightarrow> Inl e
      | Inr saved \<Rightarrow>
          (let isMatch = (if m = [] then False else n_id n \<in> set m);
               dimmed = (m \<noteq> [] \<and> \<not> isMatch);
               p = (if nullish saved
                    then xy (JNum (Fin (80 + Math_random P k * 420)))
                            (JNum (Fin (80 + Math_random P (k + 1) * 420)))
                    else saved);
               k' = (if nullish saved then k + 2 else k)
           in case projectNodes P pos m k' ns of
                Inl e \<Rightarrow> Inl e
              | Inr rest \<Rightarrow>
                  Inr (\<lparr>rf_id = String_num (n_id n), rf_type = ''hex'', rf_label = n_name n,
                        rf_dimmed = Some dimmed, rf_highlighted = Some isMatch,
                        rf_position = p, rf_selected = None\<rparr> # fst rest, snd rest)))"

definition projectEdge :: "int list \<Rightarrow> EdgeT \<Rightarrow> RFEdge" where
  "projectEdge m e =
     (let dimmed = (m \<noteq> [] \<and> (e_from_node_id e \<notin> set m \<or> e_to_node_id e \<notin> set m))
      in \<lparr>rfe_id = String_num (e_id e), rfe_source = String_num (e_from_node_id e),
           rfe_target = String_num (e_to_node_id e), rfe_sourceHandle = None,
           rfe_targetHandle = None, rfe_type = ''straight'',
           rfe_label = Some (or_empty (e_label e)), rfe_stroke = edgeStroke (e_edge_type e),
           rfe_strokeWidth = 5 / 2, rfe_opacity = Some (if dimmed then 15 / 100 else 1)\<rparr>)"

definition rebuildEffect :: "Platform \<Rightarrow> AppState \<Rightarrow> exn + AppState" where
  "rebuildEffect P s =
     (case selectedGraphId s of
        None \<Rightarrow> Inr (s\<lparr>rfNodes := [], rfEdges := []\<rparr>)
      | Some g \<Rightarrow>
          if g = 0 then Inr (s\<lparr>rfNodes := [], rfEdges := []\<rparr>)
          else (case loadPositions P (localStorage s) g of
                  Inl e \<Rightarrow> Inl e
                | Inr pos \<Rightarrow>
                    (case projectNodes P pos (matchingNodeIds s) (randomDraws s) (graphNodes s) of
                       Inl e \<Rightarrow> Inl e
                     | Inr r \<Rightarrow>
                         Inr (s\<lparr>rfNodes := fst r,
                                rfEdges := map (projectEdge (matchingNodeIds s)) (graphEdges s),
                                randomDraws := snd r\<rparr>))))"

section \<open>Persisting positions\<close>

text \<open>
  \<^verbatim>\<open>persistPositions\<close> builds the map
  \<^verbatim>\<open>map[n.id] = { x: n.position.x, y: n.position.y }\<close> node by node and saves
  it for the selected graph.
\<close>

fun positionsOf :: "RFNode list \<Rightarrow> (string \<Rightarrow> jsval option) \<Rightarrow> exn + (string \<Rightarrow> jsval option)" where
  "positionsOf [] m = Inr m"
| "positionsOf (n # ns) m =
     (case getProperty (rf_position n) ''x'' of
        Inl e \<Rightarrow> Inl e
      | Inr vx \<Rightarrow>
          (case getProperty (rf_position n) ''y'' of
             Inl e \<Rightarrow> Inl e
           | Inr vy \<Rightarrow> positionsOf ns (m(rf_id n \<mapsto> xy vx vy))))"

definition persistPositions :: "Platform \<Rightarrow> AppState \<Rightarrow> RFNode list \<Rightarrow> exn + AppState" where
  "persistPositions P s nextNodes =
     (case selectedGraphId s of
        None \<Rightarrow> Inr s
      | Some g \<Rightarrow>
          if g = 0 then Inr s
          else (case positionsOf nextNodes Map.empty of
                  Inl e \<Rightarrow> Inl e
                | Inr m \<Rightarrow>
                    (case savePositions P g (JObj m) (localStorage s) of
                       Inl e \<Rightarrow> Inl e
                     | Inr st \<Rightarrow> Inr (s\<lparr>localStorage := st\<rparr>))))"

text \<open>
  A node change re-arms the 200 ms timer; when the timer fires, the current canvas
  nodes are persisted.
\<close>

definition onNodesChange :: "Platform \<Rightarrow> NodeChange list \<Rightarrow> AppState \<Rightarrow> AppState" where
  "onNodesChange P changes s =
     s\<lparr>rfNodes := applyNodeChanges P changes (rfNodes s), saveTimer := Some 200\<rparr>"

definition saveTimerFires :: "Platform \<Rightarrow> AppState \<Rightarrow> exn + AppState" where
  "saveTimerFires P s = persistPositions P s (rfNodes s)"

definition groupNodesCenter :: "Platform \<Rightarrow> AppState \<Rightarrow> exn + AppState" where
  "groupNodesCenter P s =
     (case selectedGraphId s of
        None \<Rightarrow> Inr s
      | Some g \<Rightarrow>
          if g = 0 \<or> rfNodes s = [] then Inr s
          else (let nodeCount = length (rfNodes s);
                    cols = Math_ceil_sqrt nodeCount;
                    spacing = 120;
                    startX = 200;
                    startY = 200;
                    updatedNodes =
                      map (\<lambda>(index, node).
                             node\<lparr>rf_position :=
                                    xy (JNum (Fin (startX + real (index mod cols) * spacing)))
                                       (JNum (Fin (startY + real (index div cols) * spacing)))\<rparr>)
                          (enumerate 0 (rfNodes s))
                in case persistPositions P (s\<lparr>rfNodes := updatedNodes\<rparr>) updatedNodes of
                     Inl e \<Rightarrow> Inl e
                   | Inr s' \<Rightarrow> Inr (if rfInstance s then s'\<lparr>fitViewTimer := Some 50\<rparr> else s')))"

section \<open>Loading and deleting entities\<close>

text \<open>\<^verbatim>\<open>loadAll\<close>, given the outcomes of the four requests.\<close>

definition loadAll ::
  "User list fetched \<Rightarrow> Graph list fetched \<Rightarrow> NodeT list fetched \<Rightarrow>
   EdgeT list fetched \<Rightarrow> AppState \<Rightarrow> AppState" where
  "loadAll ru rg rn re s =
     (let s0 = s\<lparr>error := None\<rparr>;
          failed = s0\<lparr>error := Some ''Failed to load data from backend''\<rparr>
      in case authToken s of
           None \<Rightarrow> s0
         | Some t \<Rightarrow>
             if t = [] then s0
             else (case fetch_json ru of Inl _ \<Rightarrow> failed | Inr u \<Rightarrow>
                   case fetch_json rg of Inl _ \<Rightarrow> failed | Inr g \<Rightarrow>
                   case fetch_json rn of Inl _ \<Rightarrow> failed | Inr n \<Rightarrow>
                   case fetch_json re of Inl _ \<Rightarrow> failed | Inr e \<Rightarrow>
                     (let s1 = s0\<lparr>users := u, graphs := g, nodes := n, edges := e\<rparr>;
                          s2 = (case u of
                                  [] \<Rightarrow> s1
                                | u0 # _ \<Rightarrow> if selectedUserId s = None
                                            then s1\<lparr>selectedUserId := Some (u_id u0)\<rparr> else s1)
                      in case g of
                           [] \<Rightarrow> s2
                         | g0 # _ \<Rightarrow> if selectedGraphId s = None
                                     then s2\<lparr>selectedGraphId := Some (g_id g0)\<rparr> else s2)))"

text \<open>
  Deletion by id, given the outcome of the request for each id. A rejected request
  rejects the \<^verbatim>\<open>Promise.all\<close>, and the function throws before it prunes.
\<close>

definition deleteNodesById :: "(int \<Rightarrow> unit fetched) \<Rightarrow> int list \<Rightarrow> AppState \<Rightarrow> exn + AppState" where
  "deleteNodesById del ids s =
     (if ids = [] then Inr s
      else (case Promise_all (map del ids) of
              Inl e \<Rightarrow> Inl e
            | Inr _ \<Rightarrow>
                Inr (s\<lparr>edges := filter (\<lambda>e. e_from_node_id e \<notin> set ids \<and> e_to_node_id e \<notin> set ids) (edges s),
                       nodes := filter (\<lambda>n. n_id n \<notin> set ids) (nodes s)\<rparr>)))"

definition deleteEdgesById :: "(int \<Rightarrow> unit fetched) \<Rightarrow> int list \<Rightarrow> AppState \<Rightarrow> exn + AppState" where
  "deleteEdgesById del ids s =
     (if ids = [] then Inr s
      else (case Promise_all (map del ids) of
              Inl e \<Rightarrow> Inl e
            | Inr _ \<Rightarrow> Inr (s\<lparr>edges := filter (\<lambda>e. e_id e \<notin> set ids) (edges s)\<rparr>)))"

text \<open>
  The Delete/Backspace handler once past its guards: edges first, then nodes, and
  one message when either throws.
\<close>

definition onKeyDown ::
  "(int \<Rightarrow> unit fetched) \<Rightarrow> (int \<Rightarrow> unit fetched) \<Rightarrow> AppState \<Rightarrow> AppState" where
  "onKeyDown delEdge delNode s =
     (let failed = (\<lambda>t. t\<lparr>error := Some ''Failed to delete selection''\<rparr>)
      in case (if selectedEdgeIds s \<noteq> []
               then (case deleteEdgesById delEdge (selectedEdgeIds s) s of
                       Inl e \<Rightarrow> Inl s
                     | Inr t \<Rightarrow> Inr (t\<lparr>selectedEdgeIds := []\<rparr>))
               else Inr s) of
           Inl t \<Rightarrow> failed t
         | Inr s1 \<Rightarrow>
             if selectedNodeIds s \<noteq> []
             then (case deleteNodesById delNode (selectedNodeIds s) s1 of
                     Inl e \<Rightarrow> failed s1
                   | Inr t \<Rightarrow> t\<lparr>selectedNodeIds := []\<rparr>)
             else s1)"

section \<open>Optimistic edge creation\<close>

text \<open>
  \<^verbatim>\<open>onConnect\<close>, given the outcome of the create request and the outcomes of
  the four requests of the reload that a failure triggers. Everything after the
  optimistic update is inside the \<^verbatim>\<open>try\<close>: a rejected request, a body that
  cannot be read and a body that is not the created edge all reach the
  \<^verbatim>\<open>catch\<close>.
\<close>

definition onConnect ::
  "Platform \<Rightarrow> EdgeT fetched \<Rightarrow> User list fetched \<Rightarrow> Graph list fetched \<Rightarrow>
   NodeT list fetched \<Rightarrow> EdgeT list fetched \<Rightarrow> Connection \<Rightarrow> AppState \<Rightarrow> AppState" where
  "onConnect P post ru rg rn re connection s =
     (let s0 = s\<lparr>error := None\<rparr>
      in case authToken s of
           None \<Rightarrow> s0\<lparr>error := Some ''Not authenticated.''\<rparr>
         | Some t \<Rightarrow>
             if t = [] then s0\<lparr>error := Some ''Not authenticated.''\<rparr>
             else if c_source connection = None \<or> c_source connection = Some []
                     \<or> c_target connection = None \<or> c_target connection = Some [] then s0
             else (let s1 = s0\<lparr>rfEdges := addEdge P connection (rfEdges s0)\<rparr>;
                       caught = (loadAll ru rg rn re s1)\<lparr>error := Some ''Failed to create edge (network error)''\<rparr>
                   in case post of
                        Inl e \<Rightarrow> caught
                      | Inr res \<Rightarrow>
                          if \<not> ok res
                          then (case res_text res of
                                  Inl e \<Rightarrow> caught
                                | Inr msg \<Rightarrow>
                                    (loadAll ru rg rn re s1)
                                      \<lparr>error := Some (if res_status res = 409
                                                       then ''That edge already exists.''
                                                       else ''Failed to create edge ('' @ String_num (int (res_status res))
                                                            @ ''): '' @ msg)\<rparr>)
                          else (case res_json res of
                                  Inl e \<Rightarrow> caught
                                | Inr created \<Rightarrow>
                                    s1\<lparr>edges := edges s1 @ [created],
                                       rfEdges :=
                                         filter (\<lambda>e. \<not> (Some (rfe_source e) = c_source connection
                                                      \<and> Some (rfe_target e) = c_target connection))
                                                (rfEdges s1)
                                         @ [\<lparr>rfe_id = String_num (e_id created),
                                             rfe_source = String_num (e_from_node_id created),
                                             rfe_target = String_num (e_to_node_id created),
                                             rfe_sourceHandle = None, rfe_targetHandle = None,
                                             rfe_type = ''straight'',
                                             rfe_label = Some (or_empty (e_label created)),
                                             rfe_stroke = edgeStroke (e_edge_type created),
                                             rfe_strokeWidth = 5 / 2, rfe_opacity = None\<rparr>]\<rparr>)))"

section \<open>Notions of the specification\<close>



text \<open>The write of \<open>v\<close> under \<open>k\<close> is accepted by the storage.\<close>

definition accepts :: "Storage \<Rightarrow> string \<Rightarrow> string \<Rightarrow> bool" where
  "accepts st k v = (accessible st \<and> used (AList.update k v (items st)) \<le> quota st)"

text \<open>
  The grid position of the node at index \<open>i\<close> among \<open>n\<close> nodes, and a
  list of canvas nodes with each moved to its grid position.
\<close>

definition gridPosition :: "nat \<Rightarrow> nat \<Rightarrow> jsval" where
  "gridPosition n i =
     xy (JNum (Fin (200 + real (i mod nat \<lceil>sqrt (real n)\<rceil>) * 120)))
        (JNum (Fin (200 + real (i div nat \<lceil>sqrt (real n)\<rceil>) * 120)))"

definition gridNodes :: "RFNode list \<Rightarrow> RFNode list" where
  "gridNodes ns =
     map (\<lambda>(i, node). node\<lparr>rf_position := gridPosition (length ns) i\<rparr>) (enumerate 0 ns)"

text \<open>
  The map from node ids to positions that \<^verbatim>\<open>persistPositions\<close> builds when
  every position is an \<^verbatim>\<open>{ x, y }\<close> object: a later node overrides an earlier
  one of the same id.
\<close>

fun positionMap :: "RFNode list \<Rightarrow> (string \<Rightarrow> jsval option) \<Rightarrow> (string \<Rightarrow> jsval option)" where
  "positionMap [] m = m"
| "positionMap (n # ns) m = positionMap ns (m(rf_id n \<mapsto> rf_position n))"

section \<open>Initial state and sample data\<close>

text \<open>
  The state the component starts in (the \<^verbatim>\<open>useState\<close> defaults) over a given
  storage, and the concrete data on which the theorems below are instantiated: the
  techniques and transitions of the specification's examples, a storage with the
  usual 5 MB quota and one that accepts no write.
\<close>

definition initialState :: "Storage \<Rightarrow> AppState" where
  "initialState st =
     \<lparr>users = [], graphs = [], nodes = [], edges = [], selectedUserId = None,
      selectedGraphId = None, error = None, authToken = None, selectedNodeIds = [],
      selectedEdgeIds = [], rfNodes = [], rfEdges = [], searchQuery = [],
      localStorage = st, saveTimer = None, fitViewTimer = None, rfInstance = False,
      randomDraws = 0\<rparr>"

definition sample_storage :: Storage where
  "sample_storage = \<lparr>items = [], accessible = True, quota = 5242880\<rparr>"

definition full_storage :: Storage where
  "full_storage = \<lparr>items = [], accessible = True, quota = 0\<rparr>"

text \<open>
  Three position maps with the JSON text that \<^verbatim>\<open>JSON.stringify\<close> gives for
  each: one node, the three nodes of a grid, and one node whose \<open>x\<close> is
  \<^verbatim>\<open>NaN\<close>, which the text holds as \<^verbatim>\<open>null\<close>; \<open>nan_loaded\<close> is what
  \<^verbatim>\<open>JSON.parse\<close> gives for that last text.
\<close>

definition sample_layout :: jsval where
  "sample_layout = JObj [''1'' \<mapsto> xy (JNum (Fin 200)) (JNum (Fin 200))]"

definition sample_text :: string where
  \<open>sample_text = ''{"1":{"x":200,"y":200}}''\<close>

definition grid_layout :: jsval where
  "grid_layout =
     JObj [''1'' \<mapsto> xy (JNum (Fin 200)) (JNum (Fin 200)),
           ''2'' \<mapsto> xy (JNum (Fin 320)) (JNum (Fin 200)),
           ''3'' \<mapsto> xy (JNum (Fin 200)) (JNum (Fin 320))]"

definition grid_text :: string where
  \<open>grid_text = ''{"1":{"x":200,"y":200},"2":{"x":320,"y":200},"3":{"x":200,"y":320}}''\<close>

definition nan_layout :: jsval where
  "nan_layout = JObj [''1'' \<mapsto> xy (JNum NaN) (JNum (Fin 200))]"

definition nan_text :: string where
  \<open>nan_text = ''{"1":{"x":null,"y":200}}''\<close>

definition nan_loaded :: jsval where
  "nan_loaded = JObj [''1'' \<mapsto> xy JNull (JNum (Fin 200))]"

text \<open>
  The canvas library's \<^verbatim>\<open>addEdge\<close>: the edge gets the id
  \<^verbatim>\<open>reactflow__edge-\<close> followed by source, source handle, a dash, target and
  target handle, and is appended unless an edge with the same endpoints and handles
  is there already.
\<close>

definition same_handle :: "string option \<Rightarrow> string option \<Rightarrow> bool" where
  "same_handle a b = (a = b \<or> (or_empty a = [] \<and> or_empty b = []))"

definition reactflow_addEdge :: "Connection \<Rightarrow> RFEdge list \<Rightarrow> RFEdge list" where
  "reactflow_addEdge c es =
     (if or_empty (c_source c) = [] \<or> or_empty (c_target c) = [] then es
      else if list_ex (\<lambda>el. rfe_source el = or_empty (c_source c) \<and>
                            rfe_target el = or_empty (c_target c) \<and>
                            same_handle (rfe_sourceHandle el) (c_sourceHandle c) \<and>
                            same_handle (rfe_targetHandle el) (c_targetHandle c)) es then es
      else es @ [\<lparr>rfe_id = ''reactflow__edge-'' @ or_empty (c_source c) @ or_empty (c_sourceHandle c)
                           @ ''-'' @ or_empty (c_target c) @ or_empty (c_targetHandle c),
                   rfe_source = or_empty (c_source c), rfe_target = or_empty (c_target c),
                   rfe_sourceHandle = c_sourceHandle c, rfe_targetHandle = c_targetHandle c,
                   rfe_type = ''straight'', rfe_label = None, rfe_stroke = ''#16a34a'',
                   rfe_strokeWidth = 5 / 2, rfe_opacity = None\<rparr>])"

text \<open>
  A platform for the examples. Its JSON functions are the extract of
  \<^verbatim>\<open>JSON.parse\<close> and \<^verbatim>\<open>JSON.stringify\<close> on the texts and values above,
  on the empty object, and on the texts \<^verbatim>\<open>null\<close> and \<^verbatim>\<open>{oops\<close>; the
  examples use them on no other argument.
\<close>

definition sample_parse :: "string \<Rightarrow> exn + jsval" where
  "sample_parse r =
     (if r = sample_text then Inr sample_layout
      else if r = grid_text then Inr grid_layout
      else if r = nan_text then Inr nan_loaded
      else if r = ''{}'' then Inr (JObj Map.empty)
      else if r = ''null'' then Inr JNull
      else Inl SyntaxError)"

definition sample_stringify :: "jsval \<Rightarrow> string" where
  "sample_stringify v =
     (if v = sample_layout then sample_text
      else if v = grid_layout then grid_text
      else if v = nan_layout then nan_text
      else if v = JObj Map.empty then ''{}''
      else ''null'')"

definition sample_platform :: Platform where
  "sample_platform =
     \<lparr>JSON_parse = sample_parse,
      JSON_stringify = sample_stringify,
      Math_random = (\<lambda>k. 1 / 2),
      Date_now = 1700000000000,
      addEdge = reactflow_addEdge,
      applyNodeChanges = (\<lambda>changes ns. ns)\<rparr>"

definition sample_nodes :: "NodeT list" where
  "sample_nodes =
     [\<lparr>n_id = 1, n_name = ''Armbar'', n_graph_id = 1\<rparr>,
      \<lparr>n_id = 2, n_name = ''Kimura'', n_graph_id = 1\<rparr>,
      \<lparr>n_id = 3, n_name = ''Armdrag'', n_graph_id = 1\<rparr>,
      \<lparr>n_id = 4, n_name = ''Sweep'', n_graph_id = 2\<rparr>]"

definition sample_edges :: "EdgeT list" where
  "sample_edges =
     [\<lparr>e_id = 1, e_from_node_id = 1, e_to_node_id = 2, e_edge_type = positive, e_label = None\<rparr>,
      \<lparr>e_id = 2, e_from_node_id = 2, e_to_node_id = 3, e_edge_type = neutral, e_label = Some ''grip''\<rparr>,
      \<lparr>e_id = 3, e_from_node_id = 3, e_to_node_id = 4, e_edge_type = negative, e_label = None\<rparr>]"

definition sample_state :: AppState where
  "sample_state =
     (initialState sample_storage)
       \<lparr>users := [\<lparr>u_id = 1, u_name = ''Ana'', u_email = ''ana@example.org''\<rparr>],
        graphs := [\<lparr>g_id = 1, g_title = ''Guard'', g_user_id = 1\<rparr>,
                   \<lparr>g_id = 2, g_title = ''Standing'', g_user_id = 1\<rparr>],
        nodes := sample_nodes, edges := sample_edges,
        selectedUserId := Some 1, selectedGraphId := Some 1, authToken := Some ''token''\<rparr>"

text \<open>
  A backend that holds a graph with the id 0, with two nodes and an edge between
  them, and the state in which that graph is selected.
\<close>

definition zero_graphs :: "Graph list" where
  "zero_graphs =
     [\<lparr>g_id = 1, g_title = ''Standing'', g_user_id = 1\<rparr>,
      \<lparr>g_id = 0, g_title = ''Guard'', g_user_id = 1\<rparr>]"

definition zero_nodes :: "NodeT list" where
  "zero_nodes =
     [\<lparr>n_id = 5, n_name = ''Guard pull'', n_graph_id = 0\<rparr>,
      \<lparr>n_id = 6, n_name = ''Triangle'', n_graph_id = 0\<rparr>]"

definition zero_edges :: "EdgeT list" where
  "zero_edges =
     [\<lparr>e_id = 9, e_from_node_id = 5, e_to_node_id = 6, e_edge_type = positive, e_label = None\<rparr>]"

definition zero_graph_state :: AppState where
  "zero_graph_state =
     sample_state\<lparr>graphs := zero_graphs, nodes := zero_nodes, edges := zero_edges,
                  selectedGraphId := Some 0\<rparr>"

text \<open>
  Storages whose entry for graph 1 is not JSON, is the text of the map with the
  \<^verbatim>\<open>NaN\<close>, and is the JSON text \<^verbatim>\<open>null\<close>; three answers of the
  technique endpoint.
\<close>

definition corrupt_storage :: Storage where
  "corrupt_storage = sample_storage\<lparr>items := [(''matlogic:positions:1'', ''{oops'')]\<rparr>"


definition null_storage :: Storage where
  "null_storage = sample_storage\<lparr>items := [(''matlogic:positions:1'', ''null'')]\<rparr>"

definition missing_technique :: "TechniqueData Response" where
  \<open>missing_technique =
     \<lparr>res_status = 404, res_text = Inr ''{"detail":"Technique not found"}'',
      res_json = Inl SyntaxError\<rparr>\<close>

definition stored_technique :: "TechniqueData Response" where
  \<open>stored_technique =
     \<lparr>res_status = 200, res_text = Inr ''{"video_url":"https://x","steps":"1) grip"}'',
      res_json = Inr \<lparr>video_url = Some ''https://x'', steps_text = Some ''1) grip''\<rparr>\<rparr>\<close>

definition steps_only_technique :: "TechniqueData Response" where
  \<open>steps_only_technique =
     \<lparr>res_status = 200, res_text = Inr ''{"video_url":null,"steps":"1) grip"}'',
      res_json = Inr \<lparr>video_url = None, steps_text = Some ''1) grip''\<rparr>\<rparr>\<close>

text \<open>
  A success answer carrying a value; a delete endpoint that cannot be reached, and
  one that answers every request with status 500; the sample state with a search
  query, with a padded search query, and with node 2 selected for deletion.
\<close>

definition ok_response :: "'a \<Rightarrow> 'a Response" where
  "ok_response v = \<lparr>res_status = 200, res_text = Inr [], res_json = Inr v\<rparr>"

definition offline_delete :: "int \<Rightarrow> unit fetched" where
  "offline_delete i = Inl NetworkError"

definition failing_delete :: "int \<Rightarrow> unit fetched" where
  "failing_delete i =
     Inr \<lparr>res_status = 500, res_text = Inr ''Internal Server Error'', res_json = Inl SyntaxError\<rparr>"



definition cascade_state :: AppState where
  "cascade_state = sample_state\<lparr>selectedNodeIds := [2]\<rparr>"

text \<open>
  A canvas of three nodes for graph 1 and the same canvas laid out as a grid; the
  state with that canvas over the sample storage, over the storage that accepts no
  write, and with the graph of id 0 selected.
\<close>

definition canvas_node :: "string \<Rightarrow> string \<Rightarrow> real \<Rightarrow> real \<Rightarrow> RFNode" where
  "canvas_node i name px py =
     \<lparr>rf_id = i, rf_type = ''hex'', rf_label = name, rf_dimmed = Some False,
      rf_highlighted = Some False, rf_position = xy (JNum (Fin px)) (JNum (Fin py)),
      rf_selected = None\<rparr>"

definition sample_canvas :: "RFNode list" where
  "sample_canvas =
     [canvas_node ''1'' ''Armbar'' 93 411, canvas_node ''2'' ''Kimura'' 250 87,
      canvas_node ''3'' ''Armdrag'' 402 366]"

definition gridded_canvas :: "RFNode list" where
  "gridded_canvas =
     [canvas_node ''1'' ''Armbar'' 200 200, canvas_node ''2'' ''Kimura'' 320 200,
      canvas_node ''3'' ''Armdrag'' 200 320]"

definition grid_state :: AppState where
  "grid_state = sample_state\<lparr>rfNodes := sample_canvas\<rparr>"

definition full_grid_state :: AppState where
  "full_grid_state = grid_state\<lparr>localStorage := full_storage\<rparr>"

definition zero_grid_state :: AppState where
  "zero_grid_state = grid_state\<lparr>selectedGraphId := Some 0\<rparr>"

text \<open>
  Failure answers of the create-edge endpoint: a duplicate, a server error, and a
  duplicate whose body cannot be read; a connection drawn from node 1 to node 3 and
  the edge that the canvas library makes of it.
\<close>

definition duplicate_answer :: "EdgeT Response" where
  \<open>duplicate_answer =
     \<lparr>res_status = 409, res_text = Inr ''{"detail":"Edge already exists"}'',
      res_json = Inl SyntaxError\<rparr>\<close>

definition broken_answer :: "EdgeT Response" where
  "broken_answer = \<lparr>res_status = 500, res_text = Inr ''boom'', res_json = Inl SyntaxError\<rparr>"

definition unreadable_duplicate :: "EdgeT Response" where
  "unreadable_duplicate =
     \<lparr>res_status = 409, res_text = Inl NetworkError, res_json = Inl NetworkError\<rparr>"

definition optimistic_edge :: RFEdge where
  "optimistic_edge =
     \<lparr>rfe_id = ''reactflow__edge-1-3'', rfe_source = ''1'', rfe_target = ''3'',
      rfe_sourceHandle = None, rfe_targetHandle = None, rfe_type = ''straight'',
      rfe_label = None, rfe_stroke = ''#16a34a'', rfe_strokeWidth = 5 / 2, rfe_opacity = None\<rparr>"

definition sample_connection :: Connection where
  "sample_connection =
     \<lparr>c_source = Some ''1'', c_target = Some ''3'', c_sourceHandle = None, c_targetHandle = None\<rparr>"

text \<open>
  The sample state with the canvas edges as the rebuilding effect leaves them, and a
  reload whose four requests are answered with the sample collections, or whose
  request for the nodes is rejected.
\<close>

definition settled_state :: AppState where
  "settled_state =
     sample_state\<lparr>rfEdges := map (projectEdge (matchingNodeIds sample_state))
                                  (graphEdges sample_state)\<rparr>"

definition reload_users :: "User list fetched" where
  "reload_users = Inr (ok_response (users sample_state))"

definition reload_graphs :: "Graph list fetched" where
  "reload_graphs = Inr (ok_response (graphs sample_state))"

definition reload_nodes :: "NodeT list fetched" where
  "reload_nodes = Inr (ok_response sample_nodes)"

definition reload_edges :: "EdgeT list fetched" where
  "reload_edges = Inr (ok_response sample_edges)"

definition offline_nodes :: "NodeT list fetched" where
  "offline_nodes = Inl NetworkError"

section \<open>Auxiliary lemmas\<close>

lemma try_catch_total:
  "(\<And>e. \<exists>v. handler e = Inr v) \<Longrightarrow> \<exists>v. try_catch body handler = Inr v"
  by (cases body) (auto simp: try_catch_def)

lemma loadPositions_returns: "\<exists>v. loadPositions P st G = Inr v"
  unfolding loadPositions_def by (rule try_catch_total) simp

lemma savePositions_returns: "\<exists>st'. savePositions P G m st = Inr st'"
  unfolding savePositions_def by (rule try_catch_total) simp





lemma trim_blank: "\<forall>c \<in> set q. isWhiteSpace c \<Longrightarrow> trim q = []"
proof -
  assume "\<forall>c \<in> set q. isWhiteSpace c"
  then have d: "dropWhile isWhiteSpace q = []" by (simp add: dropWhile_eq_Nil_conv)
  show ?thesis unfolding trim_def d by simp
qed

lemma trim_Nil_iff: "trim q = [] \<longleftrightarrow> (\<forall>c \<in> set q. isWhiteSpace c)"
proof
  assume "trim q = []"
  then have "dropWhile isWhiteSpace (rev (dropWhile isWhiteSpace q)) = []"
    by (simp add: trim_def)
  then have a: "\<forall>c \<in> set (dropWhile isWhiteSpace q). isWhiteSpace c"
    by (simp add: dropWhile_eq_Nil_conv)
  have "dropWhile isWhiteSpace q = []"
  proof (cases "dropWhile isWhiteSpace q")
    case Nil
    then show ?thesis .
  next
    case (Cons c cs)
    then have "\<not> isWhiteSpace c" using hd_dropWhile [of isWhiteSpace q] by simp
    moreover from Cons a have "isWhiteSpace c" by simp
    ultimately show ?thesis by simp
  qed
  then show "\<forall>c \<in> set q. isWhiteSpace c" by (simp add: dropWhile_eq_Nil_conv)
next
  assume "\<forall>c \<in> set q. isWhiteSpace c"
  then show "trim q = []" by (rule trim_blank)
qed

lemmas string_eval = trim_def isWhiteSpace_def toLowerCase_def toLowerCase_char_def
  upperCaseLetters_def lowerCaseLetters_def

text \<open>The search computes the least \<open>k\<close> from the start with \<open>n \<le> k * k\<close>.\<close>

lemma ceil_sqrt_from_spec:
  "k \<le> ceil_sqrt_from n k \<and> n \<le> ceil_sqrt_from n k * ceil_sqrt_from n k \<and>
   (\<forall>j. k \<le> j \<and> j < ceil_sqrt_from n k \<longrightarrow> j * j < n)"
proof (induction n k rule: ceil_sqrt_from.induct)
  case (1 n k)
  show ?case
  proof (cases "n \<le> k * k")
    case True
    then show ?thesis by (simp add: ceil_sqrt_from.simps [of n k])
  next
    case False
    from 1 [OF False] have ih:
      "Suc k \<le> ceil_sqrt_from n (Suc k)"
      "n \<le> ceil_sqrt_from n (Suc k) * ceil_sqrt_from n (Suc k)"
      "\<forall>j. Suc k \<le> j \<and> j < ceil_sqrt_from n (Suc k) \<longrightarrow> j * j < n"
      by blast+
    have eq: "ceil_sqrt_from n k = ceil_sqrt_from n (Suc k)"
      using False by (simp add: ceil_sqrt_from.simps [of n k])
    have "\<forall>j. k \<le> j \<and> j < ceil_sqrt_from n (Suc k) \<longrightarrow> j * j < n"
    proof (intro allI impI)
      fix j assume j: "k \<le> j \<and> j < ceil_sqrt_from n (Suc k)"
      show "j * j < n"
      proof (cases "j = k")
        case True
        with False show ?thesis by simp
      next
        case False
        with j ih(3) show ?thesis by simp
      qed
    qed
    with ih eq show ?thesis by simp
  qed
qed

text \<open>So it is the ceiling of the real square root.\<close>

lemma Math_ceil_sqrt_code: "Math_ceil_sqrt n = ceil_sqrt n"
proof -
  define m where "m = ceil_sqrt n"
  have up: "n \<le> m * m" and low: "\<forall>j. j < m \<longrightarrow> j * j < n"
    using ceil_sqrt_from_spec [of 0 n] by (simp_all add: m_def ceil_sqrt_def)
  have le: "sqrt (real n) \<le> real m"
  proof (rule real_le_lsqrt)
    have "real n \<le> real (m * m)" using up by (simp only: of_nat_le_iff)
    then show "real n \<le> (real m)\<^sup>2" by (simp add: power2_eq_square)
  qed simp
  have gt: "real_of_int (int m) - 1 < sqrt (real n)"
  proof (cases m)
    case 0
    have "0 \<le> sqrt (real n)" by simp
    then have "- 1 < sqrt (real n)" by linarith
    with 0 show ?thesis by simp
  next
    case (Suc j)
    then have "j * j < n" using low by simp
    then have "real (j * j) < real n" by (simp only: of_nat_less_iff)
    then have "(real j)\<^sup>2 < real n" by (simp add: power2_eq_square)
    then have "real j < sqrt (real n)" by (rule real_less_rsqrt)
    with Suc show ?thesis by simp
  qed
  have "\<lceil>sqrt (real n)\<rceil> = int m"
    by (rule ceiling_unique) (use le gt in simp_all)
  then show ?thesis by (simp add: Math_ceil_sqrt_def m_def)
qed

lemma Promise_all_resolved:
  "\<forall>r \<in> set rs. \<not> isl r \<Longrightarrow> \<exists>vs. Promise_all rs = Inr vs"
proof (induction rs)
  case Nil
  show ?case by simp
next
  case (Cons r rs)
  then obtain vs where "Promise_all rs = Inr vs" by auto
  moreover from Cons.prems obtain v where "r = Inr v" by (cases r) auto
  ultimately show ?case by simp
qed

lemma Promise_all_rejected:
  "\<exists>r \<in> set rs. isl r \<Longrightarrow> isl (Promise_all rs)"
proof (induction rs)
  case Nil
  then show ?case by simp
next
  case (Cons r rs)
  show ?case
  proof (cases r)
    case (Inl e)
    then show ?thesis by simp
  next
    case (Inr v)
    with Cons.prems have "\<exists>r \<in> set rs. isl r" by auto
    then have "isl (Promise_all rs)" by (rule Cons.IH)
    with Inr show ?thesis by (cases "Promise_all rs") simp_all
  qed
qed

lemma sample_state_fields:
  "nodes sample_state = sample_nodes" "edges sample_state = sample_edges"
  "selectedGraphId sample_state = Some 1" "selectedUserId sample_state = Some 1"
  "authToken sample_state = Some ''token''" "searchQuery sample_state = []"
  "localStorage sample_state = sample_storage" "rfNodes sample_state = []"
  "rfEdges sample_state = []" "error sample_state = None"
  "selectedNodeIds sample_state = []" "selectedEdgeIds sample_state = []"
  "randomDraws sample_state = 0"
  by (simp_all add: sample_state_def initialState_def)

lemma posKey_1: "posKey 1 = ''matlogic:positions:1''"
  by (simp add: posKey_def String_num_def digits.simps)


text \<open>Field values and JSON extracts of the sample data.\<close>

lemma zero_graph_state_fields:
  "nodes zero_graph_state = zero_nodes" "edges zero_graph_state = zero_edges"
  "selectedGraphId zero_graph_state = Some 0" "authToken zero_graph_state = Some ''token''"
  "graphs zero_graph_state = zero_graphs"
  by (simp_all add: zero_graph_state_def sample_state_fields)

lemma sample_platform_fields:
  "JSON_stringify sample_platform = sample_stringify"
  "JSON_parse sample_platform = sample_parse"
  "Date_now sample_platform = 1700000000000"
  "addEdge sample_platform = reactflow_addEdge"
  "Math_random sample_platform k = 1 / 2"
  by (simp_all add: sample_platform_def)

lemma xy_inject: "xy a b = xy c d \<longleftrightarrow> a = c \<and> b = d"
proof
  assume "xy a b = xy c d"
  then have "[''x'' \<mapsto> a, ''y'' \<mapsto> b] = [''x'' \<mapsto> c, ''y'' \<mapsto> d]" by (simp add: xy_def)
  then have "[''x'' \<mapsto> a, ''y'' \<mapsto> b] ''x'' = [''x'' \<mapsto> c, ''y'' \<mapsto> d] ''x''"
    and "[''x'' \<mapsto> a, ''y'' \<mapsto> b] ''y'' = [''x'' \<mapsto> c, ''y'' \<mapsto> d] ''y''" by simp_all
  then show "a = c \<and> b = d" by simp
qed simp

lemma getProperty_xy: "getProperty (xy a b) ''x'' = Inr a" "getProperty (xy a b) ''y'' = Inr b"
  by (simp_all add: xy_def)

lemma layouts_distinct:
  "grid_layout \<noteq> sample_layout" "nan_layout \<noteq> sample_layout" "nan_layout \<noteq> grid_layout"
  "sample_layout \<noteq> JObj Map.empty"
proof -
  have g: "getProperty grid_layout ''2'' = Inr (xy (JNum (Fin 320)) (JNum (Fin 200)))"
    by (simp add: grid_layout_def)
  have s: "getProperty sample_layout ''2'' = Inr JUndefined"
    "getProperty sample_layout ''1'' = Inr (xy (JNum (Fin 200)) (JNum (Fin 200)))"
    by (simp_all add: sample_layout_def)
  have n: "getProperty nan_layout ''2'' = Inr JUndefined"
    "getProperty nan_layout ''1'' = Inr (xy (JNum NaN) (JNum (Fin 200)))"
    by (simp_all add: nan_layout_def)
  have u: "xy (JNum (Fin 320)) (JNum (Fin 200)) \<noteq> JUndefined" "xy (JNum NaN) (JNum (Fin 200)) \<noteq> xy (JNum (Fin 200)) (JNum (Fin 200))"
    by (simp_all add: xy_inject) (simp add: xy_def)
  show "grid_layout \<noteq> sample_layout" using g s u by auto
  show "nan_layout \<noteq> sample_layout" using n s u by auto
  show "nan_layout \<noteq> grid_layout" using g n u by auto
  have e: "getProperty (JObj Map.empty) ''1'' = Inr JUndefined" by simp
  have "xy (JNum (Fin 200)) (JNum (Fin 200)) \<noteq> JUndefined" by (simp add: xy_def)
  with s(2) e show "sample_layout \<noteq> JObj Map.empty"
  proof -
    assume u: "xy (JNum (Fin 200)) (JNum (Fin 200)) \<noteq> JUndefined"
    show ?thesis
    proof
      assume "sample_layout = JObj Map.empty"
      with s(2) e have "Inr (xy (JNum (Fin 200)) (JNum (Fin 200))) = (Inr JUndefined :: exn + jsval)"
        by simp
      with u show False by simp
    qed
  qed
qed

lemma sample_stringify_values:
  "sample_stringify sample_layout = sample_text"
  "sample_stringify grid_layout = grid_text"
  "sample_stringify nan_layout = nan_text"
  by (simp_all add: sample_stringify_def layouts_distinct)

lemma sample_parse_values:
  "sample_parse sample_text = Inr sample_layout"
  "sample_parse grid_text = Inr grid_layout"
  "sample_parse nan_text = Inr nan_loaded"
  "sample_parse ''null'' = Inr JNull"
  "sample_parse ''{oops'' = Inl SyntaxError"
  by (simp_all add: sample_parse_def sample_text_def grid_text_def nan_text_def)

text \<open>
  For a selected id other than 0 the projected nodes and edges are the two filters.
\<close>

lemma graph_projection:
  assumes "selectedGraphId s = Some G" and "G \<noteq> 0"
  shows "graphNodes s = filter (\<lambda>n. n_graph_id n = G) (nodes s) \<and>
         graphEdges s =
           filter (\<lambda>e. e_from_node_id e \<in> n_id ` set (graphNodes s) \<and>
                       e_to_node_id e \<in> n_id ` set (graphNodes s)) (edges s)"
  using assms by (simp add: graphNodes_def graphEdges_def)

text \<open>
  \<^verbatim>\<open>loadPositions\<close> never throws: it returns the empty object when nothing
  is stored, when the stored text does not parse and when the storage cannot be
  read, and otherwise the parsed value as it is.
\<close>

lemma loadPositions_fallbacks:
  "(\<exists>v. loadPositions P st G = Inr v) \<and>
   (getItem st (posKey G) = Inr None \<longrightarrow> loadPositions P st G = Inr (JObj Map.empty)) \<and>
   (\<forall>r e. getItem st (posKey G) = Inr (Some r) \<and> JSON_parse P r = Inl e \<longrightarrow>
      loadPositions P st G = Inr (JObj Map.empty)) \<and>
   (\<forall>e. getItem st (posKey G) = Inl e \<longrightarrow> loadPositions P st G = Inr (JObj Map.empty)) \<and>
   (\<forall>r v. getItem st (posKey G) = Inr (Some r) \<and> r \<noteq> [] \<and> JSON_parse P r = Inr v \<longrightarrow>
      loadPositions P st G = Inr v)"
proof -
  have cases: "(getItem st (posKey G) = Inr None \<longrightarrow> loadPositions P st G = Inr (JObj Map.empty)) \<and>
   (\<forall>r e. getItem st (posKey G) = Inr (Some r) \<and> JSON_parse P r = Inl e \<longrightarrow>
      loadPositions P st G = Inr (JObj Map.empty)) \<and>
   (\<forall>e. getItem st (posKey G) = Inl e \<longrightarrow> loadPositions P st G = Inr (JObj Map.empty)) \<and>
   (\<forall>r v. getItem st (posKey G) = Inr (Some r) \<and> r \<noteq> [] \<and> JSON_parse P r = Inr v \<longrightarrow>
      loadPositions P st G = Inr v)"
    by (auto simp: loadPositions_def try_catch_def)
  with loadPositions_returns [of P st G] show ?thesis by blast
qed

lemma sample_text_stored:
  "AList.update (posKey 1) t (items sample_storage) = [(''matlogic:positions:1'', t)]"
  by (simp add: sample_storage_def posKey_1)

text \<open>
  On positions that are \<^verbatim>\<open>{ x, y }\<close> objects \<^verbatim>\<open>persistPositions\<close> builds
  \<open>positionMap\<close>; \<^verbatim>\<open>savePositions\<close> stores the text of its argument when
  the storage accepts it and changes nothing otherwise; and "group nodes" moves the
  nodes to the grid and saves their map.
\<close>

lemma positionsOf_xy:
  "\<forall>n \<in> set ns. \<exists>a b. rf_position n = xy a b \<Longrightarrow> positionsOf ns m = Inr (positionMap ns m)"
proof (induction ns arbitrary: m)
  case Nil
  show ?case by simp
next
  case (Cons n ns)
  then obtain a b where p: "rf_position n = xy a b" by auto
  from Cons.prems have "\<forall>n \<in> set ns. \<exists>a b. rf_position n = xy a b" by simp
  then have ih: "positionsOf ns (m(rf_id n \<mapsto> xy a b)) = Inr (positionMap ns (m(rf_id n \<mapsto> xy a b)))"
    by (rule Cons.IH)
  show ?case by (simp add: p getProperty_xy ih)
qed

lemma positionMap_snoc:
  "positionMap (ns @ [n]) m = (positionMap ns m)(rf_id n \<mapsto> rf_position n)"
  by (induction ns arbitrary: m) simp_all

lemma positionMap_nth:
  "distinct (map rf_id ns) \<Longrightarrow> i < length ns \<Longrightarrow>
   positionMap ns m (rf_id (ns ! i)) = Some (rf_position (ns ! i))"
proof (induction ns rule: rev_induct)
  case Nil
  then show ?case by simp
next
  case (snoc n ns)
  show ?case
  proof (cases "i < length ns")
    case True
    from snoc.prems(1) have d: "distinct (map rf_id ns)" and fresh: "rf_id n \<notin> rf_id ` set ns"
      by simp_all
    from True have "ns ! i \<in> set ns" by simp
    with fresh have "rf_id (ns ! i) \<noteq> rf_id n" by (metis imageI)
    with snoc.IH [OF d True] True show ?thesis
      by (simp add: positionMap_snoc nth_append)
  next
    case False
    with snoc.prems(2) have "i = length ns" by simp
    then show ?thesis by (simp add: positionMap_snoc)
  qed
qed

lemma savePositions_cases:
  "savePositions P G M st =
     Inr (if accepts st (posKey G) (JSON_stringify P M)
          then st\<lparr>items := AList.update (posKey G) (JSON_stringify P M) (items st)\<rparr>
          else st)"
  by (simp add: savePositions_def setItem_def try_catch_def accepts_def)

lemma groupNodesCenter_result:
  assumes "selectedGraphId s = Some G" and "G \<noteq> 0" and "rfNodes s \<noteq> []"
  shows "groupNodesCenter P s =
           Inr (s\<lparr>rfNodes := gridNodes (rfNodes s),
                  localStorage :=
                    (if accepts (localStorage s) (posKey G)
                          (JSON_stringify P (JObj (positionMap (gridNodes (rfNodes s)) Map.empty)))
                     then (localStorage s)
                            \<lparr>items := AList.update (posKey G)
                                        (JSON_stringify P (JObj (positionMap (gridNodes (rfNodes s)) Map.empty)))
                                        (items (localStorage s))\<rparr>
                     else localStorage s),
                  fitViewTimer := (if rfInstance s then Some 50 else fitViewTimer s)\<rparr>) \<and>
         positionsOf (gridNodes (rfNodes s)) Map.empty
           = Inr (positionMap (gridNodes (rfNodes s)) Map.empty)"
proof -
  let ?upd = "gridNodes (rfNodes s)"
  let ?m = "positionMap ?upd Map.empty"
  have shape: "\<forall>n \<in> set ?upd. \<exists>a b. rf_position n = xy a b"
  proof
    fix n assume "n \<in> set ?upd"
    then obtain i node where "n = node\<lparr>rf_position := gridPosition (length (rfNodes s)) i\<rparr>"
      by (auto simp: gridNodes_def)
    then show "\<exists>a b. rf_position n = xy a b"
      unfolding gridPosition_def by (intro exI) simp
  qed
  have pos: "positionsOf ?upd Map.empty = Inr ?m"
    by (rule positionsOf_xy [OF shape])
  have persist: "persistPositions P (s\<lparr>rfNodes := ?upd\<rparr>) ?upd =
      Inr (s\<lparr>rfNodes := ?upd,
             localStorage :=
               (if accepts (localStorage s) (posKey G) (JSON_stringify P (JObj ?m))
                then (localStorage s)\<lparr>items := AList.update (posKey G) (JSON_stringify P (JObj ?m))
                                               (items (localStorage s))\<rparr>
                else localStorage s)\<rparr>)"
    using assms(1,2) by (simp add: persistPositions_def pos savePositions_cases)
  have upd_eq: "?upd = map (\<lambda>(index, node).
                     node\<lparr>rf_position :=
                            xy (JNum (Fin (200 + real (index mod Math_ceil_sqrt (length (rfNodes s))) * 120)))
                               (JNum (Fin (200 + real (index div Math_ceil_sqrt (length (rfNodes s))) * 120)))\<rparr>)
                  (enumerate 0 (rfNodes s))"
    by (simp add: gridNodes_def gridPosition_def Math_ceil_sqrt_def)
  have "groupNodesCenter P s =
           Inr (s\<lparr>rfNodes := ?upd,
                  localStorage :=
                    (if accepts (localStorage s) (posKey G) (JSON_stringify P (JObj ?m))
                     then (localStorage s)\<lparr>items := AList.update (posKey G) (JSON_stringify P (JObj ?m))
                                                    (items (localStorage s))\<rparr>
                     else localStorage s),
                  fitViewTimer := (if rfInstance s then Some 50 else fitViewTimer s)\<rparr>)"
    using assms by (simp add: groupNodesCenter_def Let_def upd_eq [symmetric] persist)
  with pos show ?thesis by simp
qed

lemma gridNodes_nth:
  "length (gridNodes ns) = length ns \<and>
   (\<forall>i < length ns. gridNodes ns ! i = (ns ! i)\<lparr>rf_position := gridPosition (length ns) i\<rparr>) \<and>
   map rf_id (gridNodes ns) = map rf_id ns"
proof -
  have len: "length (gridNodes ns) = length ns" by (simp add: gridNodes_def)
  have nth: "\<forall>i < length ns. gridNodes ns ! i = (ns ! i)\<lparr>rf_position := gridPosition (length ns) i\<rparr>"
    by (simp add: gridNodes_def nth_enumerate_eq)
  have "map rf_id (gridNodes ns) = map rf_id ns"
    by (rule nth_equalityI) (simp_all add: len nth)
  with len nth show ?thesis by simp
qed

lemma ceil_sqrt_3: "nat \<lceil>sqrt (real (3::nat))\<rceil> = 2"
  using Math_ceil_sqrt_code [of 3]
  by (simp add: Math_ceil_sqrt_def ceil_sqrt_def ceil_sqrt_from.simps)

lemma gridPosition_3:
  "gridPosition 3 i = xy (JNum (Fin (200 + real (i mod 2) * 120))) (JNum (Fin (200 + real (i div 2) * 120)))"
  unfolding gridPosition_def ceil_sqrt_3 by (rule refl)

lemma gridNodes_sample: "gridNodes sample_canvas = gridded_canvas"
proof -
  have len: "length sample_canvas = 3" by (simp add: sample_canvas_def)
  show ?thesis
    unfolding gridNodes_def len gridPosition_3
    by (simp add: sample_canvas_def gridded_canvas_def canvas_node_def enumerate_eq_zip upt_rec)
qed

lemma positionMap_gridded: "JObj (positionMap gridded_canvas Map.empty) = grid_layout"
  by (simp add: gridded_canvas_def canvas_node_def grid_layout_def)

lemma grid_state_fields:
  "selectedGraphId grid_state = Some 1" "rfNodes grid_state = sample_canvas"
  "localStorage grid_state = sample_storage" "rfInstance grid_state = False"
  "selectedGraphId full_grid_state = Some 1" "rfNodes full_grid_state = sample_canvas"
  "localStorage full_grid_state = full_storage" "rfInstance full_grid_state = False"
  "selectedGraphId zero_grid_state = Some 0" "rfNodes zero_grid_state = sample_canvas"
  by (simp_all add: grid_state_def full_grid_state_def zero_grid_state_def sample_state_def
      initialState_def)

lemma sample_canvas_nonempty: "sample_canvas \<noteq> []"
  by (simp add: sample_canvas_def)


lemma graphNodes_cong:
  "nodes a = nodes b \<Longrightarrow> selectedGraphId a = selectedGraphId b \<Longrightarrow>
   graphNodes a = graphNodes b"
  by (simp add: graphNodes_def split: option.splits)

lemma graphEdges_cong:
  "nodes a = nodes b \<Longrightarrow> edges a = edges b \<Longrightarrow> selectedGraphId a = selectedGraphId b \<Longrightarrow>
   graphEdges a = graphEdges b"
  by (simp add: graphEdges_def graphNodes_cong [of a b] split: option.splits)

lemma matchingNodeIds_cong:
  "nodes a = nodes b \<Longrightarrow> searchQuery a = searchQuery b \<Longrightarrow>
   selectedGraphId a = selectedGraphId b \<Longrightarrow> matchingNodeIds a = matchingNodeIds b"
  by (simp add: matchingNodeIds_def graphNodes_cong [of a b] Let_def)

lemma graphEdges_subset: "set (graphEdges s) \<subseteq> set (edges s)"
  by (auto simp: graphEdges_def Let_def split: option.splits)

lemma getProperty_total:
  "\<not> nullish pos \<Longrightarrow> \<exists>v. getProperty pos k = Inr v"
  by (cases pos) (simp_all add: nullish_def)

lemma projectNodes_total:
  "\<not> nullish pos \<Longrightarrow> \<exists>r. projectNodes P pos m k ns = Inr r"
proof (induction ns arbitrary: k)
  case Nil
  show ?case by simp
next
  case (Cons n ns)
  from getProperty_total [OF Cons.prems] obtain saved
    where g: "getProperty pos (String_num (n_id n)) = Inr saved" by blast
  from Cons.IH [OF Cons.prems] obtain r
    where "projectNodes P pos m (if nullish saved then k + 2 else k) ns = Inr r" by blast
  with g show ?case by (simp add: Let_def)
qed

lemma projectNodes_throws:
  "nullish pos \<Longrightarrow> ns \<noteq> [] \<Longrightarrow> projectNodes P pos m k ns = Inl TypeError"
  by (cases ns; cases pos) (simp_all add: nullish_def)

text \<open>
  What the rebuilding effect yields when it completes, and when it throws: exactly
  when a graph with a projected node is selected and the loaded positions are
  \<^verbatim>\<open>null\<close> or \<^verbatim>\<open>undefined\<close>.
\<close>

lemma rebuildEffect_view:
  "rebuildEffect P s = Inr s' \<Longrightarrow>
   rfEdges s' = map (projectEdge (matchingNodeIds s)) (graphEdges s) \<and>
   nodes s' = nodes s \<and> edges s' = edges s \<and> users s' = users s \<and> graphs s' = graphs s \<and>
   error s' = error s \<and> selectedGraphId s' = selectedGraphId s"
  by (auto simp: rebuildEffect_def graphEdges_def Let_def split: option.splits if_splits sum.splits)

lemma rebuildEffect_throws_iff:
  "isl (rebuildEffect P s) \<longleftrightarrow>
     (\<exists>G pos. selectedGraphId s = Some G \<and> G \<noteq> 0 \<and> graphNodes s \<noteq> [] \<and>
              loadPositions P (localStorage s) G = Inr pos \<and> nullish pos)"
proof (cases "selectedGraphId s")
  case None
  then show ?thesis by (simp add: rebuildEffect_def)
next
  case (Some G)
  obtain pos where pos: "loadPositions P (localStorage s) G = Inr pos"
    using loadPositions_returns by blast
  show ?thesis
  proof (cases "G = 0")
    case True
    with Some show ?thesis by (simp add: rebuildEffect_def)
  next
    case False
    show ?thesis
    proof (cases "nullish pos \<and> graphNodes s \<noteq> []")
      case True
      then have "projectNodes P pos (matchingNodeIds s) (randomDraws s) (graphNodes s) = Inl TypeError"
        by (simp add: projectNodes_throws)
      with Some False pos True show ?thesis by (simp add: rebuildEffect_def)
    next
      case no: False
      have "\<exists>r. projectNodes P pos (matchingNodeIds s) (randomDraws s) (graphNodes s) = Inr r"
      proof (cases "nullish pos")
        case True
        with no have "graphNodes s = []" by simp
        then show ?thesis by simp
      next
        case False
        then show ?thesis by (rule projectNodes_total)
      qed
      then obtain r where "projectNodes P pos (matchingNodeIds s) (randomDraws s) (graphNodes s) = Inr r"
        by blast
      with Some False pos no show ?thesis by (auto simp: rebuildEffect_def)
    qed
  qed
qed

lemma loadAll_success:
  assumes "authToken s = Some t" and "t \<noteq> []"
    and "fetch_json ru = Inr u" and "fetch_json rg = Inr g"
    and "fetch_json rn = Inr n" and "fetch_json re = Inr e"
  shows "users (loadAll ru rg rn re s) = u \<and> graphs (loadAll ru rg rn re s) = g \<and>
         nodes (loadAll ru rg rn re s) = n \<and> edges (loadAll ru rg rn re s) = e \<and>
         error (loadAll ru rg rn re s) = None"
  using assms by (simp add: loadAll_def Let_def split: list.splits)

lemma loadAll_keeps_view:
  "rfEdges (loadAll ru rg rn re s) = rfEdges s \<and> rfNodes (loadAll ru rg rn re s) = rfNodes s \<and>
   searchQuery (loadAll ru rg rn re s) = searchQuery s \<and>
   localStorage (loadAll ru rg rn re s) = localStorage s"
  by (simp add: loadAll_def Let_def split: option.splits sum.splits list.splits)

lemma loadAll_keeps_selection:
  "selectedGraphId s = Some G \<Longrightarrow> selectedGraphId (loadAll ru rg rn re s) = Some G"
  by (simp add: loadAll_def Let_def split: option.splits sum.splits list.splits)

lemma loadAll_failure:
  assumes "authToken s = Some t" and "t \<noteq> []"
    and "isl (fetch_json ru) \<or> isl (fetch_json rg) \<or> isl (fetch_json rn) \<or> isl (fetch_json re)"
  shows "loadAll ru rg rn re s = s\<lparr>error := Some ''Failed to load data from backend''\<rparr>"
  using assms by (auto simp: loadAll_def Let_def isl_def split: sum.splits)

text \<open>Evaluation of the sample connection and of the sample answers.\<close>

lemma graphEdges_sample: "graphEdges sample_state = take 2 sample_edges"
  by (simp add: graphEdges_def graphNodes_def sample_state_fields sample_nodes_def sample_edges_def)

lemma matchingNodeIds_sample: "matchingNodeIds sample_state = []"
  by (simp add: matchingNodeIds_def sample_state_fields string_eval)

lemma settled_state_fields:
  "authToken settled_state = Some ''token''" "nodes settled_state = sample_nodes"
  "edges settled_state = sample_edges" "users settled_state = users sample_state"
  "graphs settled_state = graphs sample_state" "selectedGraphId settled_state = Some 1"
  "searchQuery settled_state = []" "localStorage settled_state = sample_storage"
  "map rfe_id (rfEdges settled_state) = [''1'', ''2'']"
  "map rfe_source (rfEdges settled_state) = [''1'', ''2'']"
  "map rfe_target (rfEdges settled_state) = [''2'', ''3'']"
  "map rfe_sourceHandle (rfEdges settled_state) = [None, None]"
  "map rfe_targetHandle (rfEdges settled_state) = [None, None]"
  by (simp_all add: settled_state_def sample_state_fields graphEdges_sample matchingNodeIds_sample
      sample_edges_def projectEdge_def String_num_def digits.simps)

lemma reload_fields:
  "fetch_json reload_users = Inr (users sample_state)"
  "fetch_json reload_graphs = Inr (graphs sample_state)"
  "fetch_json reload_nodes = Inr sample_nodes"
  "fetch_json reload_edges = Inr sample_edges"
  "fetch_json offline_nodes = Inl NetworkError"
  by (simp_all add: fetch_json_def reload_users_def reload_graphs_def reload_nodes_def
      reload_edges_def offline_nodes_def ok_response_def)

lemma answer_fields:
  "\<not> ok duplicate_answer" "\<not> ok broken_answer" "\<not> ok unreadable_duplicate"
  "res_status duplicate_answer = 409" "res_status broken_answer = 500"
  "res_status unreadable_duplicate = 409"
  "res_text broken_answer = Inr ''boom''" "res_text unreadable_duplicate = Inl NetworkError"
  "\<not> isl (res_text duplicate_answer)"
  \<open>res_text duplicate_answer = Inr ''{"detail":"Edge already exists"}''\<close>
  by (simp_all add: ok_def duplicate_answer_def broken_answer_def unreadable_duplicate_def)

lemma sample_connection_fields:
  "c_source sample_connection = Some ''1''" "c_target sample_connection = Some ''3''"
  "c_sourceHandle sample_connection = None" "c_targetHandle sample_connection = None"
  by (simp_all add: sample_connection_def)

lemma list_ex_map2:
  "list_ex (\<lambda>el. f el = a \<and> g el = b \<and> R el) es \<Longrightarrow> (a, b) \<in> set (zip (map f es) (map g es))"
  by (induction es) auto

lemma addEdge_settled:
  "reactflow_addEdge sample_connection (rfEdges settled_state) = rfEdges settled_state @ [optimistic_edge]"
proof -
  have "\<not> list_ex (\<lambda>el. rfe_source el = ''1'' \<and> rfe_target el = ''3'' \<and>
           (same_handle (rfe_sourceHandle el) None \<and> same_handle (rfe_targetHandle el) None))
          (rfEdges settled_state)"
  proof
    assume "list_ex (\<lambda>el. rfe_source el = ''1'' \<and> rfe_target el = ''3'' \<and>
           (same_handle (rfe_sourceHandle el) None \<and> same_handle (rfe_targetHandle el) None))
          (rfEdges settled_state)"
    then have "(''1'', ''3'') \<in> set (zip (map rfe_source (rfEdges settled_state))
                                            (map rfe_target (rfEdges settled_state)))"
      by (rule list_ex_map2)
    then show False by (simp add: settled_state_fields)
  qed
  then show ?thesis
    by (simp add: reactflow_addEdge_def sample_connection_fields optimistic_edge_def or_empty_def)
qed

section \<open>Properties\<close>

text \<open>
  C9. \<^verbatim>\<open>nextEdgeType\<close> is a 3-cycle on the three classifications: it never
  returns its argument, and three applications return the argument.
\<close>

theorem nextEdgeType_three_cycle:
  "nextEdgeType t \<noteq> t \<and> nextEdgeType (nextEdgeType (nextEdgeType t)) = t"
  by (cases t) simp_all

theorem nextEdgeType_three_cycle_witness:
  "nextEdgeType neutral \<noteq> neutral \<and>
   nextEdgeType (nextEdgeType (nextEdgeType neutral)) = neutral"
  using nextEdgeType_three_cycle [of neutral] by simp

text \<open>
  C3. When the requests of \<^verbatim>\<open>loadAll\<close> are issued (a token is present) and
  any of the four rejects, the resulting state is the prior state with the one
  message \<open>Failed to load data from backend\<close>: the four collections are
  unchanged, and none of the loaded collections is applied.
\<close>

theorem loadAll_rejection:
  assumes "authToken s = Some t" and "t \<noteq> []"
    and "isl (fetch_json ru) \<or> isl (fetch_json rg) \<or> isl (fetch_json rn) \<or> isl (fetch_json re)"
  shows "loadAll ru rg rn re s = s\<lparr>error := Some ''Failed to load data from backend''\<rparr> \<and>
         error (loadAll ru rg rn re s) = Some ''Failed to load data from backend'' \<and>
         users (loadAll ru rg rn re s) = users s \<and>
         graphs (loadAll ru rg rn re s) = graphs s \<and>
         nodes (loadAll ru rg rn re s) = nodes s \<and>
         edges (loadAll ru rg rn re s) = edges s"
proof -
  have "loadAll ru rg rn re s = s\<lparr>error := Some ''Failed to load data from backend''\<rparr>"
    using assms by (auto simp: loadAll_def Let_def isl_def split: sum.splits)
  then show ?thesis by simp
qed

theorem loadAll_rejection_witness:
  "authToken sample_state = Some ''token'' \<and> ''token'' \<noteq> [] \<and>
   isl (fetch_json (Inl NetworkError :: NodeT list fetched)) \<and>
   error (loadAll (Inr (ok_response [])) (Inr (ok_response []))
            (Inl NetworkError) (Inr (ok_response [])) sample_state)
     = Some ''Failed to load data from backend'' \<and>
   nodes (loadAll (Inr (ok_response [])) (Inr (ok_response []))
            (Inl NetworkError) (Inr (ok_response [])) sample_state) = sample_nodes"
proof -
  have a: "authToken sample_state = Some ''token''" by (simp add: sample_state_fields)
  have b: "''token'' \<noteq> []" by simp
  have c: "isl (fetch_json (Inl NetworkError :: NodeT list fetched))"
    by (simp add: fetch_json_def)
  then have d: "isl (fetch_json (Inr (ok_response []) :: User list fetched)) \<or>
      isl (fetch_json (Inr (ok_response []) :: Graph list fetched)) \<or>
      isl (fetch_json (Inl NetworkError :: NodeT list fetched)) \<or>
      isl (fetch_json (Inr (ok_response []) :: EdgeT list fetched))" by simp
  from a b c loadAll_rejection [OF a b d]
  show ?thesis by (simp add: sample_state_fields)
qed

text \<open>
  C4, as amended. For every non-empty id list, when every delete request resolves,
  whatever its HTTP status, \<^verbatim>\<open>deleteNodesById\<close> leaves exactly the nodes whose
  id is not in the list and exactly the edges with neither endpoint in the list;
  when a request is rejected, the function throws and prunes nothing.
\<close>

theorem deleteNodesById_prunes:
  assumes "ids \<noteq> []"
  shows "((\<forall>i \<in> set ids. \<not> isl (del i)) \<longrightarrow>
            (\<exists>s'. deleteNodesById del ids s = Inr s' \<and>
                  nodes s' = filter (\<lambda>n. n_id n \<notin> set ids) (nodes s) \<and>
                  edges s' = filter (\<lambda>e. e_from_node_id e \<notin> set ids \<and> e_to_node_id e \<notin> set ids) (edges s))) \<and>
         ((\<exists>i \<in> set ids. isl (del i)) \<longrightarrow> isl (deleteNodesById del ids s))"
proof (intro conjI impI)
  assume "\<forall>i \<in> set ids. \<not> isl (del i)"
  then have "\<forall>r \<in> set (map del ids). \<not> isl r" by simp
  then obtain vs where "Promise_all (map del ids) = Inr vs"
    using Promise_all_resolved by blast
  then show "\<exists>s'. deleteNodesById del ids s = Inr s' \<and>
                  nodes s' = filter (\<lambda>n. n_id n \<notin> set ids) (nodes s) \<and>
                  edges s' = filter (\<lambda>e. e_from_node_id e \<notin> set ids \<and> e_to_node_id e \<notin> set ids) (edges s)"
    using assms by (simp add: deleteNodesById_def)
next
  assume "\<exists>i \<in> set ids. isl (del i)"
  then have "\<exists>r \<in> set (map del ids). isl r" by simp
  then have "isl (Promise_all (map del ids))" by (rule Promise_all_rejected)
  then show "isl (deleteNodesById del ids s)"
    using assms by (auto simp: deleteNodesById_def isl_def)
qed

theorem deleteNodesById_prunes_witness:
  "[2::int] \<noteq> [] \<and> \<not> isl (failing_delete 2) \<and>
   (\<exists>s'. deleteNodesById failing_delete [2] sample_state = Inr s' \<and>
         map n_id (nodes s') = [1, 3, 4] \<and> map e_id (edges s') = [3]) \<and>
   isl (offline_delete 2) \<and>
   isl (deleteNodesById offline_delete [2] sample_state)"
proof -
  have ne: "[2::int] \<noteq> []" by simp
  have r: "\<not> isl (failing_delete 2)" by (simp add: failing_delete_def)
  have o: "isl (offline_delete 2)" by (simp add: offline_delete_def)
  from deleteNodesById_prunes [OF ne, of failing_delete sample_state] r
  obtain s' where s': "deleteNodesById failing_delete [2] sample_state = Inr s'"
    "nodes s' = filter (\<lambda>n. n_id n \<notin> set [2]) (nodes sample_state)"
    "edges s' = filter (\<lambda>e. e_from_node_id e \<notin> set [2] \<and> e_to_node_id e \<notin> set [2]) (edges sample_state)"
    by auto
  have n: "map n_id (nodes s') = [1, 3, 4]"
    by (simp add: s'(2) sample_state_fields sample_nodes_def)
  have e: "map e_id (edges s') = [3]"
    by (simp add: s'(3) sample_state_fields sample_edges_def)
  have t: "isl (deleteNodesById offline_delete [2] sample_state)"
    using deleteNodesById_prunes [OF ne, of offline_delete sample_state] o by simp
  from s'(1) n e have "\<exists>s'. deleteNodesById failing_delete [2] sample_state = Inr s' \<and>
         map n_id (nodes s') = [1, 3, 4] \<and> map e_id (edges s') = [3]"
    by (intro exI [of _ s']) simp
  with ne r o t show ?thesis by simp
qed

text \<open>
  C4 as stated fails when a delete request is rejected: with node 2 selected and the
  backend unreachable, \<^verbatim>\<open>deleteNodesById\<close> throws, the key handler reports
  the failure, and node 2 and its two edges stay in local state.
\<close>

theorem delete_rejected_counterexample:
  "deleteNodesById offline_delete [2] cascade_state = Inl NetworkError \<and>
   nodes (onKeyDown offline_delete offline_delete cascade_state) = sample_nodes \<and>
   edges (onKeyDown offline_delete offline_delete cascade_state) = sample_edges \<and>
   error (onKeyDown offline_delete offline_delete cascade_state)
     = Some ''Failed to delete selection''"
proof -
  have a: "deleteNodesById offline_delete [2] cascade_state = Inl NetworkError"
    by (simp add: deleteNodesById_def offline_delete_def)
  have sel: "selectedEdgeIds cascade_state = []" "selectedNodeIds cascade_state = [2]"
    by (simp_all add: cascade_state_def sample_state_def initialState_def)
  have k: "onKeyDown offline_delete offline_delete cascade_state
      = cascade_state\<lparr>error := Some ''Failed to delete selection''\<rparr>"
    by (simp add: onKeyDown_def Let_def sel a)
  show ?thesis
    by (simp add: a k) (simp add: cascade_state_def sample_state_fields)
qed




text \<open>
  C8. \<^verbatim>\<open>loadTechniqueDraft\<close> never throws. A 404 answer, like every
  non-success answer, a rejected request and an unreadable body, gives the default
  draft with empty \<open>videoUrl\<close> and \<open>steps\<close>. A success answer gives the
  draft that carries the server's \<open>video_url\<close> and \<open>steps\<close>, each field on
  its own: a field that is null or absent becomes the empty string and leaves the
  other as the server sent it.
\<close>

theorem loadTechniqueDraft_or_default:
  "(\<exists>d. loadTechniqueDraft P res = Inr d) \<and>
   (\<forall>r. res = Inr r \<and> res_status r = 404 \<longrightarrow>
      loadTechniqueDraft P res = Inr \<lparr>videoUrl = [], steps = [], updatedAt = Date_now P\<rparr>) \<and>
   (\<forall>r d. res = Inr r \<and> ok r \<and> res_json r = Inr d \<longrightarrow>
      loadTechniqueDraft P res =
        Inr \<lparr>videoUrl = (case video_url d of None \<Rightarrow> [] | Some v \<Rightarrow> v),
             steps = (case steps_text d of None \<Rightarrow> [] | Some t \<Rightarrow> t),
             updatedAt = Date_now P\<rparr>) \<and>
   (\<forall>r. res = Inr r \<and> \<not> ok r \<longrightarrow>
      loadTechniqueDraft P res = Inr \<lparr>videoUrl = [], steps = [], updatedAt = Date_now P\<rparr>) \<and>
   (\<forall>r e. res = Inr r \<and> ok r \<and> res_json r = Inl e \<longrightarrow>
      loadTechniqueDraft P res = Inr \<lparr>videoUrl = [], steps = [], updatedAt = Date_now P\<rparr>) \<and>
   (\<forall>e. res = Inl e \<longrightarrow>
      loadTechniqueDraft P res = Inr \<lparr>videoUrl = [], steps = [], updatedAt = Date_now P\<rparr>)"
proof -
  have total: "\<exists>d. loadTechniqueDraft P res = Inr d"
    unfolding loadTechniqueDraft_def by (rule try_catch_total) simp
  have missing: "\<forall>r. res = Inr r \<and> res_status r = 404 \<longrightarrow>
      loadTechniqueDraft P res = Inr \<lparr>videoUrl = [], steps = [], updatedAt = Date_now P\<rparr>"
    by (simp add: loadTechniqueDraft_def try_catch_def ok_def)
  have found: "\<forall>r d. res = Inr r \<and> ok r \<and> res_json r = Inr d \<longrightarrow>
      loadTechniqueDraft P res =
        Inr \<lparr>videoUrl = (case video_url d of None \<Rightarrow> [] | Some v \<Rightarrow> v),
             steps = (case steps_text d of None \<Rightarrow> [] | Some t \<Rightarrow> t),
             updatedAt = Date_now P\<rparr>"
    by (simp add: loadTechniqueDraft_def try_catch_def or_empty_def)
  have refused: "\<forall>r. res = Inr r \<and> \<not> ok r \<longrightarrow>
      loadTechniqueDraft P res = Inr \<lparr>videoUrl = [], steps = [], updatedAt = Date_now P\<rparr>"
    by (simp add: loadTechniqueDraft_def try_catch_def)
  have unreadable: "\<forall>r e. res = Inr r \<and> ok r \<and> res_json r = Inl e \<longrightarrow>
      loadTechniqueDraft P res = Inr \<lparr>videoUrl = [], steps = [], updatedAt = Date_now P\<rparr>"
    by (simp add: loadTechniqueDraft_def try_catch_def)
  have rejected: "\<forall>e. res = Inl e \<longrightarrow>
      loadTechniqueDraft P res = Inr \<lparr>videoUrl = [], steps = [], updatedAt = Date_now P\<rparr>"
    by (simp add: loadTechniqueDraft_def try_catch_def)
  from total missing found refused unreadable rejected show ?thesis by blast
qed

theorem loadTechniqueDraft_or_default_witness:
  "res_status missing_technique = 404 \<and>
   loadTechniqueDraft sample_platform (Inr missing_technique) =
     Inr \<lparr>videoUrl = [], steps = [], updatedAt = 1700000000000\<rparr> \<and>
   ok stored_technique \<and>
   loadTechniqueDraft sample_platform (Inr stored_technique) =
     Inr \<lparr>videoUrl = ''https://x'', steps = ''1) grip'', updatedAt = 1700000000000\<rparr> \<and>
   ok steps_only_technique \<and>
   loadTechniqueDraft sample_platform (Inr steps_only_technique) =
     Inr \<lparr>videoUrl = [], steps = ''1) grip'', updatedAt = 1700000000000\<rparr> \<and>
   loadTechniqueDraft sample_platform (Inl NetworkError) =
     Inr \<lparr>videoUrl = [], steps = [], updatedAt = 1700000000000\<rparr>"
proof -
  have a: "res_status missing_technique = 404" by (simp add: missing_technique_def)
  have b: "ok stored_technique" "ok steps_only_technique"
    by (simp_all add: ok_def stored_technique_def steps_only_technique_def)
  have c: "res_json stored_technique =
      Inr \<lparr>video_url = Some ''https://x'', steps_text = Some ''1) grip''\<rparr>"
    "res_json steps_only_technique = Inr \<lparr>video_url = None, steps_text = Some ''1) grip''\<rparr>"
    by (simp_all add: stored_technique_def steps_only_technique_def)
  have now: "Date_now sample_platform = 1700000000000" by (simp add: sample_platform_def)
  from a b c now loadTechniqueDraft_or_default [of sample_platform "Inr missing_technique"]
    loadTechniqueDraft_or_default [of sample_platform "Inr stored_technique"]
    loadTechniqueDraft_or_default [of sample_platform "Inr steps_only_technique"]
    loadTechniqueDraft_or_default [of sample_platform "Inl NetworkError"]
  show ?thesis by simp
qed

text \<open>
  C1 at its failing input. The backend holds a graph with the id 0 and that graph is
  selected: the backend nodes and edges of the graph are two nodes and their edge,
  but \<^verbatim>\<open>!selectedGraphId\<close> is true for 0, so no node and no edge is
  projected and the rebuilt canvas is empty, while \<^verbatim>\<open>loadAll\<close>, which tests
  \<^verbatim>\<open>selectedGraphId == null\<close>, keeps 0 as the selection.
\<close>

theorem graph_zero_failing_input:
  "selectedGraphId zero_graph_state = Some 0 \<and>
   filter (\<lambda>n. n_graph_id n = 0) (nodes zero_graph_state) = zero_nodes \<and>
   graphNodes zero_graph_state = [] \<and>
   filter (\<lambda>e. e_from_node_id e \<in> n_id ` set zero_nodes \<and> e_to_node_id e \<in> n_id ` set zero_nodes)
     (edges zero_graph_state) = zero_edges \<and>
   graphEdges zero_graph_state = [] \<and>
   rebuildEffect sample_platform zero_graph_state
     = Inr (zero_graph_state\<lparr>rfNodes := [], rfEdges := []\<rparr>) \<and>
   selectedGraphId
     (loadAll (Inr (ok_response [])) (Inr (ok_response zero_graphs)) (Inr (ok_response zero_nodes))
        (Inr (ok_response zero_edges)) zero_graph_state) = Some 0"
proof -
  have a: "filter (\<lambda>n. n_graph_id n = 0) (nodes zero_graph_state) = zero_nodes"
    by (simp add: zero_graph_state_fields zero_nodes_def)
  have b: "graphNodes zero_graph_state = []"
    by (simp add: graphNodes_def zero_graph_state_fields)
  have c: "filter (\<lambda>e. e_from_node_id e \<in> n_id ` set zero_nodes \<and> e_to_node_id e \<in> n_id ` set zero_nodes)
     (edges zero_graph_state) = zero_edges"
    by (simp add: zero_graph_state_fields zero_nodes_def zero_edges_def)
  have d: "graphEdges zero_graph_state = []"
    by (simp add: graphEdges_def zero_graph_state_fields)
  have e: "rebuildEffect sample_platform zero_graph_state
     = Inr (zero_graph_state\<lparr>rfNodes := [], rfEdges := []\<rparr>)"
    by (simp add: rebuildEffect_def zero_graph_state_fields)
  have f: "selectedGraphId
     (loadAll (Inr (ok_response [])) (Inr (ok_response zero_graphs)) (Inr (ok_response zero_nodes))
        (Inr (ok_response zero_edges)) zero_graph_state) = Some 0"
    by (simp add: loadAll_def Let_def fetch_json_def ok_response_def zero_graph_state_fields
        zero_graphs_def)
  from a b c d e f show ?thesis by (simp add: zero_graph_state_fields)
qed

text \<open>
  C10 at its failing input. The text stored for graph 1 is \<^verbatim>\<open>null\<close>: it is
  not empty and parses, so \<^verbatim>\<open>loadPositions\<close> returns \<^verbatim>\<open>null\<close>, which
  is no position map, and the rebuilding effect throws when it indexes it.
\<close>

theorem loadPositions_null_failing_input:
  "getItem null_storage (posKey 1) = Inr (Some ''null'') \<and>
   JSON_parse sample_platform ''null'' = Inr JNull \<and>
   loadPositions sample_platform null_storage 1 = Inr JNull \<and>
   graphNodes (sample_state\<lparr>localStorage := null_storage\<rparr>) \<noteq> [] \<and>
   rebuildEffect sample_platform (sample_state\<lparr>localStorage := null_storage\<rparr>) = Inl TypeError"
proof -
  have a: "getItem null_storage (posKey 1) = Inr (Some ''null'')"
    by (simp add: getItem_def null_storage_def sample_storage_def posKey_1)
  have b: "JSON_parse sample_platform ''null'' = Inr JNull"
    by (simp add: sample_platform_fields sample_parse_values)
  have c: "loadPositions sample_platform null_storage 1 = Inr JNull"
    by (simp add: loadPositions_def try_catch_def a b)
  have gn: "graphNodes (sample_state\<lparr>localStorage := null_storage\<rparr>) = take 3 sample_nodes"
    by (simp add: graphNodes_def sample_state_fields sample_nodes_def)
  have d: "rebuildEffect sample_platform (sample_state\<lparr>localStorage := null_storage\<rparr>) = Inl TypeError"
    by (simp add: rebuildEffect_def sample_state_fields c gn sample_nodes_def)
  from a b c gn d show ?thesis by (simp add: sample_nodes_def)
qed




text \<open>
  C6, as amended. With a selected graph id other than 0 and \<open>n > 0\<close> canvas
  nodes, "group nodes" gives the node at index \<open>i\<close> the position
  \<open>(200 + (i mod cols) * 120, 200 + (i div cols) * 120)\<close> with
  \<open>cols = \<lceil>sqrt n\<rceil>\<close>, changes nothing else of the node or of the state but
  the storage and the fit-view timer, and leaves the debounce timer alone. In the
  same step it hands the map of the new positions (each node id to its grid position
  when the ids are distinct) to \<^verbatim>\<open>savePositions\<close>: the storage then holds the
  JSON text of the map under the graph's key when it accepts the write, and is
  unchanged when it refuses.
\<close>

theorem groupNodesCenter_grid:
  assumes "selectedGraphId s = Some G" and "G \<noteq> 0" and "rfNodes s \<noteq> []"
  shows "\<exists>s' m. groupNodesCenter P s = Inr s' \<and>
           length (rfNodes s') = length (rfNodes s) \<and>
           (\<forall>i < length (rfNodes s).
              rfNodes s' ! i =
                (rfNodes s ! i)
                  \<lparr>rf_position :=
                     xy (JNum (Fin (200 + real (i mod nat \<lceil>sqrt (real (length (rfNodes s)))\<rceil>) * 120)))
                        (JNum (Fin (200 + real (i div nat \<lceil>sqrt (real (length (rfNodes s)))\<rceil>) * 120)))\<rparr>) \<and>
           s' = s\<lparr>rfNodes := rfNodes s', localStorage := localStorage s',
                  fitViewTimer := (if rfInstance s then Some 50 else fitViewTimer s)\<rparr> \<and>
           saveTimer s' = saveTimer s \<and>
           positionsOf (rfNodes s') Map.empty = Inr m \<and>
           (distinct (map rf_id (rfNodes s)) \<longrightarrow>
              (\<forall>i < length (rfNodes s).
                 m (rf_id (rfNodes s ! i)) =
                   Some (xy (JNum (Fin (200 + real (i mod nat \<lceil>sqrt (real (length (rfNodes s)))\<rceil>) * 120)))
                            (JNum (Fin (200 + real (i div nat \<lceil>sqrt (real (length (rfNodes s)))\<rceil>) * 120)))))) \<and>
           localStorage s' =
             (if accepts (localStorage s) (posKey G) (JSON_stringify P (JObj m))
              then (localStorage s)
                     \<lparr>items := AList.update (posKey G) (JSON_stringify P (JObj m))
                                 (items (localStorage s))\<rparr>
              else localStorage s)"
proof -
  define upd where "upd = gridNodes (rfNodes s)"
  define m where "m = positionMap upd Map.empty"
  define st' where "st' =
     (if accepts (localStorage s) (posKey G) (JSON_stringify P (JObj m))
      then (localStorage s)\<lparr>items := AList.update (posKey G) (JSON_stringify P (JObj m))
                                       (items (localStorage s))\<rparr>
      else localStorage s)"
  define s' where "s' = s\<lparr>rfNodes := upd, localStorage := st',
                  fitViewTimer := (if rfInstance s then Some 50 else fitViewTimer s)\<rparr>"
  note r = groupNodesCenter_result [OF assms, of P, folded upd_def, folded m_def, folded st'_def,
      folded s'_def]
  have g: "groupNodesCenter P s = Inr s'" and pos: "positionsOf upd Map.empty = Inr m"
    using r by simp_all
  note n = gridNodes_nth [of "rfNodes s", folded upd_def]
  have len: "length upd = length (rfNodes s)" using n by simp
  have nth: "\<forall>i < length (rfNodes s).
      upd ! i = (rfNodes s ! i)\<lparr>rf_position := gridPosition (length (rfNodes s)) i\<rparr>"
    using n by simp
  have ids: "map rf_id upd = map rf_id (rfNodes s)" using n by simp
  have pm: "distinct (map rf_id (rfNodes s)) \<longrightarrow>
      (\<forall>i < length (rfNodes s). m (rf_id (rfNodes s ! i)) = Some (gridPosition (length (rfNodes s)) i))"
  proof (intro impI allI)
    fix i assume d: "distinct (map rf_id (rfNodes s))" and i: "i < length (rfNodes s)"
    from d ids have "distinct (map rf_id upd)" by simp
    moreover from i len have "i < length upd" by simp
    ultimately have "m (rf_id (upd ! i)) = Some (rf_position (upd ! i))"
      unfolding m_def by (rule positionMap_nth)
    with nth i show "m (rf_id (rfNodes s ! i)) = Some (gridPosition (length (rfNodes s)) i)"
      by simp
  qed
  have f1: "rfNodes s' = upd" and f2: "localStorage s' = st'" and f3: "saveTimer s' = saveTimer s"
    by (simp_all add: s'_def)
  have f4: "s' = s\<lparr>rfNodes := rfNodes s', localStorage := localStorage s',
                  fitViewTimer := (if rfInstance s then Some 50 else fitViewTimer s)\<rparr>"
    by (simp add: s'_def)
  show ?thesis
    apply (rule exI [of _ s'])
    apply (rule exI [of _ m])
    using g len nth f4 f3 pos pm
    unfolding f1 f2 st'_def gridPosition_def
    by blast
qed

theorem groupNodesCenter_grid_witness:
  "selectedGraphId grid_state = Some 1 \<and> (1::int) \<noteq> 0 \<and> rfNodes grid_state \<noteq> [] \<and>
   distinct (map rf_id (rfNodes grid_state)) \<and>
   accepts (localStorage grid_state) (posKey 1) (JSON_stringify sample_platform grid_layout) \<and>
   (\<exists>s'. groupNodesCenter sample_platform grid_state = Inr s' \<and>
         map rf_position (rfNodes s') =
           [xy (JNum (Fin 200)) (JNum (Fin 200)), xy (JNum (Fin 320)) (JNum (Fin 200)),
            xy (JNum (Fin 200)) (JNum (Fin 320))] \<and>
         positionsOf (rfNodes s') Map.empty = Inr (positionMap gridded_canvas Map.empty) \<and>
         saveTimer s' = None \<and>
         localStorage s' = sample_storage\<lparr>items := [(''matlogic:positions:1'', grid_text)]\<rparr>)"
proof -
  have sel: "selectedGraphId grid_state = Some 1" by (rule grid_state_fields)
  have nz: "(1::int) \<noteq> 0" by simp
  have ne: "rfNodes grid_state \<noteq> []" by (simp add: grid_state_fields sample_canvas_nonempty)
  have d: "distinct (map rf_id (rfNodes grid_state))"
    by (simp add: grid_state_fields sample_canvas_def canvas_node_def)
  have str: "JSON_stringify sample_platform grid_layout = grid_text"
    by (simp add: sample_platform_fields sample_stringify_values)
  have acc: "accepts (localStorage grid_state) (posKey 1) (JSON_stringify sample_platform grid_layout)"
    by (simp add: accepts_def str grid_state_fields sample_text_stored used_def grid_text_def)
      (simp add: sample_storage_def)
  from groupNodesCenter_grid [OF sel nz ne, of sample_platform]
  obtain s' m where g: "groupNodesCenter sample_platform grid_state = Inr s'"
    and len: "length (rfNodes s') = length (rfNodes grid_state)"
    and nth: "\<forall>i < length (rfNodes grid_state).
              rfNodes s' ! i =
                (rfNodes grid_state ! i)
                  \<lparr>rf_position :=
                     xy (JNum (Fin (200 + real (i mod nat \<lceil>sqrt (real (length (rfNodes grid_state)))\<rceil>) * 120)))
                        (JNum (Fin (200 + real (i div nat \<lceil>sqrt (real (length (rfNodes grid_state)))\<rceil>) * 120)))\<rparr>"
    and tm: "saveTimer s' = saveTimer grid_state"
    and pos: "positionsOf (rfNodes s') Map.empty = Inr m"
    and sto: "localStorage s' =
             (if accepts (localStorage grid_state) (posKey 1) (JSON_stringify sample_platform (JObj m))
              then (localStorage grid_state)
                     \<lparr>items := AList.update (posKey 1) (JSON_stringify sample_platform (JObj m))
                                 (items (localStorage grid_state))\<rparr>
              else localStorage grid_state)"
    by blast
  have l3: "length (rfNodes grid_state) = 3" by (simp add: grid_state_fields sample_canvas_def)
  have "rfNodes s' = gridNodes sample_canvas"
  proof (rule nth_equalityI)
    show "length (rfNodes s') = length (gridNodes sample_canvas)"
      using len by (simp add: gridNodes_nth grid_state_fields)
  next
    fix i assume "i < length (rfNodes s')"
    with len have i: "i < length (rfNodes grid_state)" by simp
    with nth have "rfNodes s' ! i = (rfNodes grid_state ! i)\<lparr>rf_position := gridPosition (length (rfNodes grid_state)) i\<rparr>"
      by (simp add: gridPosition_def)
    also have "\<dots> = gridNodes sample_canvas ! i"
      using i gridNodes_nth [of sample_canvas] by (simp add: grid_state_fields)
    finally show "rfNodes s' ! i = gridNodes sample_canvas ! i" .
  qed
  then have nodes': "rfNodes s' = gridded_canvas" by (simp add: gridNodes_sample)
  have ps: "map rf_position (rfNodes s') =
           [xy (JNum (Fin 200)) (JNum (Fin 200)), xy (JNum (Fin 320)) (JNum (Fin 200)),
            xy (JNum (Fin 200)) (JNum (Fin 320))]"
    by (simp add: nodes' gridded_canvas_def canvas_node_def)
  have "positionsOf gridded_canvas Map.empty = Inr (positionMap gridded_canvas Map.empty)"
    by (simp add: gridded_canvas_def canvas_node_def getProperty_xy)
  with pos nodes' have m: "m = positionMap gridded_canvas Map.empty" by simp
  then have jm: "JObj m = grid_layout" by (simp add: positionMap_gridded)
  have st: "localStorage s' = sample_storage\<lparr>items := [(''matlogic:positions:1'', grid_text)]\<rparr>"
    using acc by (simp add: sto jm str grid_state_fields sample_text_stored)
  have "\<exists>s'. groupNodesCenter sample_platform grid_state = Inr s' \<and>
         map rf_position (rfNodes s') =
           [xy (JNum (Fin 200)) (JNum (Fin 200)), xy (JNum (Fin 320)) (JNum (Fin 200)),
            xy (JNum (Fin 200)) (JNum (Fin 320))] \<and>
         positionsOf (rfNodes s') Map.empty = Inr (positionMap gridded_canvas Map.empty) \<and>
         saveTimer s' = None \<and>
         localStorage s' = sample_storage\<lparr>items := [(''matlogic:positions:1'', grid_text)]\<rparr>"
    using g ps pos m tm st
    by (intro exI [of _ s']) (simp add: grid_state_def sample_state_def initialState_def)
  with sel nz ne d acc show ?thesis by simp
qed

text \<open>
  C6 as stated fails on a storage that refuses the write: the three nodes are moved
  to the grid and nothing is stored for the graph. It also fails in the state with
  the graph id 0 selected over a non-empty canvas, where the operation does nothing.
\<close>

theorem group_not_persisted_counterexample:
  "selectedGraphId full_grid_state = Some 1 \<and> rfNodes full_grid_state = sample_canvas \<and>
   groupNodesCenter sample_platform full_grid_state
     = Inr (full_grid_state\<lparr>rfNodes := gridded_canvas\<rparr>) \<and>
   getItem (localStorage (full_grid_state\<lparr>rfNodes := gridded_canvas\<rparr>)) (posKey 1) = Inr None \<and>
   selectedGraphId zero_grid_state = Some 0 \<and> rfNodes zero_grid_state = sample_canvas \<and>
   groupNodesCenter sample_platform zero_grid_state = Inr zero_grid_state"
proof -
  have sel: "selectedGraphId full_grid_state = Some 1" by (rule grid_state_fields)
  have nz: "(1::int) \<noteq> 0" by simp
  have ne: "rfNodes full_grid_state \<noteq> []" by (simp add: grid_state_fields sample_canvas_nonempty)
  have refuse: "\<not> accepts full_storage (posKey 1) t" for t
    by (simp add: accepts_def full_storage_def used_def posKey_1)
  have a: "groupNodesCenter sample_platform full_grid_state
     = Inr (full_grid_state\<lparr>rfNodes := gridded_canvas\<rparr>)"
    using groupNodesCenter_result [OF sel nz ne, of sample_platform]
    by (simp add: grid_state_fields gridNodes_sample refuse)
  have b: "getItem (localStorage (full_grid_state\<lparr>rfNodes := gridded_canvas\<rparr>)) (posKey 1) = Inr None"
    by (simp add: grid_state_fields getItem_def full_storage_def)
  have c: "groupNodesCenter sample_platform zero_grid_state = Inr zero_grid_state"
    by (simp add: groupNodesCenter_def grid_state_fields)
  from sel a b c show ?thesis by (simp add: grid_state_fields)
qed


text \<open>
  C2, as amended. When the create request of \<^verbatim>\<open>onConnect\<close> is answered with a
  non-success status, the handler runs \<^verbatim>\<open>loadAll\<close> on the state that holds the
  optimistic edge and then sets the message: when the body of the answer can be read,
  "That edge already exists." exactly when the status is 409 and otherwise the
  generic message with the status and the body; when the body cannot be read, the
  network-error message whatever the status. The handler itself leaves the optimistic
  edge on the canvas. When the four requests of the reload succeed, the collections
  are the server's, and the rebuilding effect that follows either replaces the canvas
  edges by the projection of the server's edges of the selected graph, or throws
  because the stored positions of that graph are \<^verbatim>\<open>null\<close>. When one of the four
  requests is rejected, the collections stay as they were.
\<close>

theorem onConnect_failure:
  assumes "authToken s = Some t" and "t \<noteq> []"
    and "c_source c = Some src" and "src \<noteq> []"
    and "c_target c = Some tgt" and "tgt \<noteq> []"
    and "post = Inr res" and "\<not> ok res"
  shows "onConnect P post ru rg rn re c s =
           (loadAll ru rg rn re (s\<lparr>error := None, rfEdges := addEdge P c (rfEdges s)\<rparr>))
             \<lparr>error := Some (case res_text res of
                               Inl e \<Rightarrow> ''Failed to create edge (network error)''
                             | Inr msg \<Rightarrow>
                                 if res_status res = 409 then ''That edge already exists.''
                                 else ''Failed to create edge ('' @ String_num (int (res_status res))
                                      @ ''): '' @ msg)\<rparr> \<and>
         (error (onConnect P post ru rg rn re c s) = Some ''That edge already exists.''
            \<longleftrightarrow> res_status res = 409 \<and> \<not> isl (res_text res)) \<and>
         rfEdges (onConnect P post ru rg rn re c s) = addEdge P c (rfEdges s) \<and>
         (\<forall>u g n e. fetch_json ru = Inr u \<and> fetch_json rg = Inr g \<and>
                    fetch_json rn = Inr n \<and> fetch_json re = Inr e \<longrightarrow>
            users (onConnect P post ru rg rn re c s) = u \<and>
            graphs (onConnect P post ru rg rn re c s) = g \<and>
            nodes (onConnect P post ru rg rn re c s) = n \<and>
            edges (onConnect P post ru rg rn re c s) = e \<and>
            set (graphEdges (onConnect P post ru rg rn re c s)) \<subseteq> set e \<and>
            (\<forall>r'. rebuildEffect P (onConnect P post ru rg rn re c s) = Inr r' \<longrightarrow>
               rfEdges r' =
                 map (projectEdge (matchingNodeIds (onConnect P post ru rg rn re c s)))
                     (graphEdges (onConnect P post ru rg rn re c s))) \<and>
            (isl (rebuildEffect P (onConnect P post ru rg rn re c s)) \<longrightarrow>
               (\<exists>G pos. selectedGraphId (onConnect P post ru rg rn re c s) = Some G \<and>
                  loadPositions P (localStorage s) G = Inr pos \<and> nullish pos))) \<and>
         (isl (fetch_json ru) \<or> isl (fetch_json rg) \<or> isl (fetch_json rn) \<or> isl (fetch_json re) \<longrightarrow>
            users (onConnect P post ru rg rn re c s) = users s \<and>
            graphs (onConnect P post ru rg rn re c s) = graphs s \<and>
            nodes (onConnect P post ru rg rn re c s) = nodes s \<and>
            edges (onConnect P post ru rg rn re c s) = edges s)"
proof -
  let ?s1 = "s\<lparr>error := None, rfEdges := addEdge P c (rfEdges s)\<rparr>"
  let ?l = "loadAll ru rg rn re ?s1"
  let ?msg = "case res_text res of
                Inl e \<Rightarrow> ''Failed to create edge (network error)''
              | Inr msg \<Rightarrow>
                  if res_status res = 409 then ''That edge already exists.''
                  else ''Failed to create edge ('' @ String_num (int (res_status res)) @ ''): '' @ msg"
  let ?r = "onConnect P post ru rg rn re c s"
  have eq: "?r = ?l\<lparr>error := Some ?msg\<rparr>"
    using assms by (simp add: onConnect_def Let_def split: sum.splits)
  have cls: "error ?r = Some ''That edge already exists.''
            \<longleftrightarrow> res_status res = 409 \<and> \<not> isl (res_text res)"
    by (cases "res_text res") (simp_all add: eq)
  have view: "rfEdges ?r = addEdge P c (rfEdges s)"
    by (simp add: eq loadAll_keeps_view)
  have tok: "authToken ?s1 = Some t" using assms(1) by simp
  have reload: "\<forall>u g n e. fetch_json ru = Inr u \<and> fetch_json rg = Inr g \<and>
                    fetch_json rn = Inr n \<and> fetch_json re = Inr e \<longrightarrow>
            users ?r = u \<and> graphs ?r = g \<and> nodes ?r = n \<and> edges ?r = e \<and>
            set (graphEdges ?r) \<subseteq> set e \<and>
            (\<forall>r'. rebuildEffect P ?r = Inr r' \<longrightarrow>
               rfEdges r' = map (projectEdge (matchingNodeIds ?r)) (graphEdges ?r)) \<and>
            (isl (rebuildEffect P ?r) \<longrightarrow>
               (\<exists>G pos. selectedGraphId ?r = Some G \<and>
                  loadPositions P (localStorage s) G = Inr pos \<and> nullish pos))"
  proof (intro allI impI)
    fix u g n e
    assume a: "fetch_json ru = Inr u \<and> fetch_json rg = Inr g \<and>
                    fetch_json rn = Inr n \<and> fetch_json re = Inr e"
    then have L: "users ?l = u \<and> graphs ?l = g \<and> nodes ?l = n \<and> edges ?l = e"
      using loadAll_success [OF tok assms(2), of ru u rg g rn n re e] by simp
    then have ents: "users ?r = u \<and> graphs ?r = g \<and> nodes ?r = n \<and> edges ?r = e"
      by (simp add: eq)
    have sub: "set (graphEdges ?r) \<subseteq> set e"
      using graphEdges_subset [of ?r] ents by simp
    have eff: "\<forall>r'. rebuildEffect P ?r = Inr r' \<longrightarrow>
               rfEdges r' = map (projectEdge (matchingNodeIds ?r)) (graphEdges ?r)"
      using rebuildEffect_view by blast
    have sto: "localStorage ?r = localStorage s"
      by (simp add: eq loadAll_keeps_view)
    have thr: "isl (rebuildEffect P ?r) \<longrightarrow>
               (\<exists>G pos. selectedGraphId ?r = Some G \<and>
                  loadPositions P (localStorage s) G = Inr pos \<and> nullish pos)"
      unfolding rebuildEffect_throws_iff sto by blast
    from ents sub eff thr show "users ?r = u \<and> graphs ?r = g \<and> nodes ?r = n \<and> edges ?r = e \<and>
            set (graphEdges ?r) \<subseteq> set e \<and>
            (\<forall>r'. rebuildEffect P ?r = Inr r' \<longrightarrow>
               rfEdges r' = map (projectEdge (matchingNodeIds ?r)) (graphEdges ?r)) \<and>
            (isl (rebuildEffect P ?r) \<longrightarrow>
               (\<exists>G pos. selectedGraphId ?r = Some G \<and>
                  loadPositions P (localStorage s) G = Inr pos \<and> nullish pos))"
      by blast
  qed
  have failed: "isl (fetch_json ru) \<or> isl (fetch_json rg) \<or> isl (fetch_json rn) \<or> isl (fetch_json re) \<longrightarrow>
            users ?r = users s \<and> graphs ?r = graphs s \<and> nodes ?r = nodes s \<and> edges ?r = edges s"
  proof
    assume "isl (fetch_json ru) \<or> isl (fetch_json rg) \<or> isl (fetch_json rn) \<or> isl (fetch_json re)"
    then have "?l = ?s1\<lparr>error := Some ''Failed to load data from backend''\<rparr>"
      by (rule loadAll_failure [OF tok assms(2)])
    then show "users ?r = users s \<and> graphs ?r = graphs s \<and> nodes ?r = nodes s \<and> edges ?r = edges s"
      by (simp add: eq)
  qed
  from eq cls view reload failed show ?thesis by blast
qed

text \<open>
  A duplicate and a server error on the connection from node 1 to node 3, each followed
  by a reload that succeeds: the messages, the canvas after the handler, and the
  canvas after the rebuilding effect.
\<close>

theorem onConnect_failure_witness:
  "authToken settled_state = Some ''token'' \<and> c_source sample_connection = Some ''1'' \<and>
   c_target sample_connection = Some ''3'' \<and> \<not> ok duplicate_answer \<and> \<not> ok broken_answer \<and>
   error (onConnect sample_platform (Inr duplicate_answer) reload_users reload_graphs
            reload_nodes reload_edges sample_connection settled_state)
     = Some ''That edge already exists.'' \<and>
   error (onConnect sample_platform (Inr broken_answer) reload_users reload_graphs
            reload_nodes reload_edges sample_connection settled_state)
     = Some ''Failed to create edge (500): boom'' \<and>
   edges (onConnect sample_platform (Inr duplicate_answer) reload_users reload_graphs
            reload_nodes reload_edges sample_connection settled_state) = sample_edges \<and>
   map rfe_id (rfEdges (onConnect sample_platform (Inr duplicate_answer) reload_users reload_graphs
                          reload_nodes reload_edges sample_connection settled_state))
     = [''1'', ''2'', ''reactflow__edge-1-3''] \<and>
   (\<exists>r'. rebuildEffect sample_platform
            (onConnect sample_platform (Inr duplicate_answer) reload_users reload_graphs
               reload_nodes reload_edges sample_connection settled_state) = Inr r' \<and>
         map rfe_id (rfEdges r') = [''1'', ''2''])"
proof -
  let ?r = "onConnect sample_platform (Inr duplicate_answer) reload_users reload_graphs
              reload_nodes reload_edges sample_connection settled_state"
  let ?b = "onConnect sample_platform (Inr broken_answer) reload_users reload_graphs
              reload_nodes reload_edges sample_connection settled_state"
  have ne: "''token'' \<noteq> []" "''1'' \<noteq> []" "''3'' \<noteq> []" by simp_all
  note D = onConnect_failure [of settled_state "''token''" sample_connection "''1''" "''3''"
      "Inr duplicate_answer" duplicate_answer sample_platform reload_users reload_graphs
      reload_nodes reload_edges,
      OF settled_state_fields(1) ne(1) sample_connection_fields(1) ne(2)
         sample_connection_fields(2) ne(3) refl answer_fields(1)]
  note B = onConnect_failure [of settled_state "''token''" sample_connection "''1''" "''3''"
      "Inr broken_answer" broken_answer sample_platform reload_users reload_graphs
      reload_nodes reload_edges,
      OF settled_state_fields(1) ne(1) sample_connection_fields(1) ne(2)
         sample_connection_fields(2) ne(3) refl answer_fields(2)]
  have dup: "error ?r = Some ''That edge already exists.''"
    using D [THEN conjunct2, THEN conjunct1] by (simp add: answer_fields)
  have brk: "error ?b = Some ''Failed to create edge (500): boom''"
    by (subst B [THEN conjunct1]) (simp add: answer_fields String_num_def digits.simps)
  have view: "map rfe_id (rfEdges ?r) = [''1'', ''2'', ''reactflow__edge-1-3'']"
    using D [THEN conjunct2, THEN conjunct2, THEN conjunct1]
    by (simp add: sample_platform_fields addEdge_settled settled_state_fields optimistic_edge_def)
  note R = D [THEN conjunct2, THEN conjunct2, THEN conjunct2, THEN conjunct1, rule_format,
      of "users sample_state" "graphs sample_state" sample_nodes sample_edges]
  have ents: "nodes ?r = sample_nodes" "edges ?r = sample_edges"
    using R by (simp_all add: reload_fields)
  have eff: "\<forall>r'. rebuildEffect sample_platform ?r = Inr r' \<longrightarrow>
               rfEdges r' = map (projectEdge (matchingNodeIds ?r)) (graphEdges ?r)"
    using R by (simp add: reload_fields)
  have eq: "?r = (loadAll reload_users reload_graphs reload_nodes reload_edges
                   (settled_state\<lparr>error := None,
                      rfEdges := addEdge sample_platform sample_connection (rfEdges settled_state)\<rparr>))
                 \<lparr>error := Some ''That edge already exists.''\<rparr>"
    by (subst D [THEN conjunct1]) (simp add: answer_fields)
  have sel: "selectedGraphId ?r = Some 1"
    by (subst eq) (simp add: loadAll_keeps_selection settled_state_fields)
  have qry: "searchQuery ?r = []" and sto: "localStorage ?r = sample_storage"
    by (subst eq, simp add: loadAll_keeps_view settled_state_fields)+
  have ge: "graphEdges ?r = take 2 sample_edges"
    using graphEdges_cong [of ?r sample_state] by (simp add: ents sel sample_state_fields graphEdges_sample)
  have mi: "matchingNodeIds ?r = []"
    using matchingNodeIds_cong [of ?r sample_state]
    by (simp add: ents sel qry sample_state_fields matchingNodeIds_sample)
  have lp: "loadPositions sample_platform sample_storage 1 = Inr (JObj Map.empty)"
    by (simp add: loadPositions_def try_catch_def getItem_def sample_storage_def posKey_1)
  have "\<not> isl (rebuildEffect sample_platform ?r)"
    unfolding rebuildEffect_throws_iff by (simp add: sel sto lp nullish_def)
  then obtain r' where r': "rebuildEffect sample_platform ?r = Inr r'"
    by (cases "rebuildEffect sample_platform ?r") simp_all
  with eff have "rfEdges r' = map (projectEdge []) (take 2 sample_edges)"
    by (simp add: ge mi)
  then have "map rfe_id (rfEdges r') = [''1'', ''2'']"
    by (simp add: sample_edges_def projectEdge_def String_num_def digits.simps)
  with r' have ex: "\<exists>r'. rebuildEffect sample_platform ?r = Inr r' \<and> map rfe_id (rfEdges r') = [''1'', ''2'']"
    by simp
  from dup brk view ents(2) ex show ?thesis
    by (simp add: settled_state_fields sample_connection_fields answer_fields)
qed

text \<open>
  C2 as stated fails when the request for the nodes of the reload is rejected: the
  duplicate message is set, and the optimistic edge stays on the canvas with the
  collections unchanged, so that no rebuild follows. It also fails on a 409 answer
  whose body cannot be read: the message is the network-error one.
\<close>

theorem connect_reload_counterexample:
  "authToken settled_state = Some ''token'' \<and> \<not> ok duplicate_answer \<and>
   res_status duplicate_answer = 409 \<and>
   error (onConnect sample_platform (Inr duplicate_answer) reload_users reload_graphs
            offline_nodes reload_edges sample_connection settled_state)
     = Some ''That edge already exists.'' \<and>
   map rfe_id (rfEdges settled_state) = [''1'', ''2''] \<and>
   map rfe_id (rfEdges (onConnect sample_platform (Inr duplicate_answer) reload_users reload_graphs
                          offline_nodes reload_edges sample_connection settled_state))
     = [''1'', ''2'', ''reactflow__edge-1-3''] \<and>
   onConnect sample_platform (Inr duplicate_answer) reload_users reload_graphs
       offline_nodes reload_edges sample_connection settled_state
     = settled_state\<lparr>error := Some ''That edge already exists.'',
                      rfEdges := rfEdges settled_state @ [optimistic_edge]\<rparr> \<and>
   \<not> ok unreadable_duplicate \<and> res_status unreadable_duplicate = 409 \<and>
   error (onConnect sample_platform (Inr unreadable_duplicate) reload_users reload_graphs
            reload_nodes reload_edges sample_connection settled_state)
     = Some ''Failed to create edge (network error)''"
proof -
  have tok: "authToken (settled_state\<lparr>error := None,
               rfEdges := rfEdges settled_state @ [optimistic_edge]\<rparr>) = Some ''token''"
    by (simp add: settled_state_fields)
  have off: "loadAll reload_users reload_graphs offline_nodes reload_edges
               (settled_state\<lparr>error := None, rfEdges := rfEdges settled_state @ [optimistic_edge]\<rparr>)
             = (settled_state\<lparr>error := None, rfEdges := rfEdges settled_state @ [optimistic_edge]\<rparr>)
                 \<lparr>error := Some ''Failed to load data from backend''\<rparr>"
    by (rule loadAll_failure [OF tok]) (simp_all add: reload_fields)
  have one: "onConnect sample_platform (Inr duplicate_answer) reload_users reload_graphs
       offline_nodes reload_edges sample_connection settled_state
     = settled_state\<lparr>error := Some ''That edge already exists.'',
                      rfEdges := rfEdges settled_state @ [optimistic_edge]\<rparr>"
    by (simp add: onConnect_def Let_def settled_state_fields sample_connection_fields
        answer_fields sample_platform_fields addEdge_settled off)
  have two: "error (onConnect sample_platform (Inr unreadable_duplicate) reload_users reload_graphs
            reload_nodes reload_edges sample_connection settled_state)
     = Some ''Failed to create edge (network error)''"
    by (simp add: onConnect_def Let_def settled_state_fields sample_connection_fields
        answer_fields)
  show ?thesis
    by (simp add: one two settled_state_fields answer_fields optimistic_edge_def)
qed

end
